theory Spec2Isabelle
  imports Main
begin

section \<open>Python text\<close>

text \<open>
  A Python \<open>str\<close> is modelled as a \<open>string\<close> whose characters are the code points
  below 256. On that range the functions below are the Python ones: \<open>isspace\<close> is
  \<open>str.isspace\<close> (which is also what \<open>str.strip()\<close> and the pattern \<open>\s\<close> test), and
  \<open>quote\<close> encodes a code point from 128 on as its two UTF-8 bytes.
\<close>

definition whitespace :: "char list" where
  "whitespace = [CHR 0x09, CHR 0x0A, CHR 0x0B, CHR 0x0C, CHR 0x0D,
                 CHR 0x1C, CHR 0x1D, CHR 0x1E, CHR 0x1F, CHR 0x20, CHR 0x85, CHR 0xA0]"

definition isspace :: "char \<Rightarrow> bool" where
  "isspace c = (c \<in> set whitespace)"

text \<open>\<open>s.strip()\<close>\<close>

definition strip :: "string \<Rightarrow> string" where
  "strip s = rev (dropWhile isspace (rev (dropWhile isspace s)))"

text \<open>\<open>s.startswith(p)\<close>\<close>

definition startswith :: "string \<Rightarrow> string \<Rightarrow> bool" where
  "startswith s p = (take (length p) s = p)"

text \<open>\<open>s.split(sep)\<close> for a one-character separator: never an empty list.\<close>

fun split_on :: "char \<Rightarrow> string \<Rightarrow> string list" where
  "split_on sep [] = [[]]"
| "split_on sep (c # cs) =
     (if c = sep then [] # split_on sep cs
      else (case split_on sep cs of
              [] \<Rightarrow> [[c]]
            | p # ps \<Rightarrow> (c # p) # ps))"

text \<open>\<open>sep.join(xs)\<close>\<close>

fun join :: "string \<Rightarrow> string list \<Rightarrow> string" where
  "join sep [] = []"
| "join sep [x] = x"
| "join sep (x # y # ys) = x @ sep @ join sep (y # ys)"

text \<open>
  \<open>re.search(r'^(.*?)MARKER', s, re.DOTALL)\<close>: the lazy group is the text before the first
  place where the marker occurs; no match when it occurs nowhere.
\<close>

fun before_marker :: "string \<Rightarrow> string \<Rightarrow> string option" where
  "before_marker m [] = (if m = [] then Some [] else None)"
| "before_marker m (c # cs) =
     (if startswith (c # cs) m then Some []
      else map_option ((#) c) (before_marker m cs))"

text \<open>\<open>re.sub(r'\s+', ' ', s)\<close>: every maximal run of white space becomes one space.\<close>

function collapse_ws :: "string \<Rightarrow> string" where
  "collapse_ws [] = []"
| "collapse_ws (c # cs) =
     (if isspace c then CHR '' '' # collapse_ws (dropWhile isspace cs)
      else c # collapse_ws cs)"
  by pat_completeness auto
termination
  by (relation "measure length") (auto simp: length_dropWhile_le less_Suc_eq_le)

text \<open>\<open>s.lower()\<close> on code points below 256.\<close>

definition lower_char :: "char \<Rightarrow> char" where
  "lower_char c =
     (let n = (of_char c :: nat)
      in if (65 \<le> n \<and> n \<le> 90) \<or> (192 \<le> n \<and> n \<le> 222 \<and> n \<noteq> 215)
         then char_of (n + 32) else c)"

definition lower :: "string \<Rightarrow> string" where
  "lower s = map lower_char s"

text \<open>\<open>str(i)\<close> for an integer.\<close>

definition digit_char :: "nat \<Rightarrow> char" where
  "digit_char d = ''0123456789'' ! d"

fun digits :: "nat \<Rightarrow> string" where
  "digits n = (if n < 10 then [digit_char n] else digits (n div 10) @ [digit_char (n mod 10)])"

declare digits.simps [simp del]

definition str_int :: "int \<Rightarrow> string" where
  "str_int i = (if i < 0 then CHR ''-'' # digits (nat (- i)) else digits (nat i))"

text \<open>
  \<open>urllib.parse.quote(s)\<close> with its default \<open>safe='/'\<close>: letters, digits and \<open>_.-~/\<close>
  are kept, every other character is replaced by \<open>%XX\<close> for each byte of its UTF-8 encoding.
\<close>

definition always_safe :: "char list" where
  "always_safe = ''ABCDEFGHIJKLMNOPQRSTUVWXYZabcdefghijklmnopqrstuvwxyz0123456789_.-~''"

definition hex_digit :: "nat \<Rightarrow> char" where
  "hex_digit d = ''0123456789ABCDEF'' ! d"

definition percent :: "nat \<Rightarrow> string" where
  "percent b = [CHR ''%'', hex_digit (b div 16), hex_digit (b mod 16)]"

definition utf8 :: "char \<Rightarrow> nat list" where
  "utf8 c = (let n = (of_char c :: nat)
             in if n < 128 then [n] else [192 + n div 64, 128 + n mod 64])"

definition quote_char :: "char \<Rightarrow> string" where
  "quote_char c =
     (if c \<in> set always_safe \<or> c = CHR ''/'' then [c] else concat (map percent (utf8 c)))"

definition quote :: "string \<Rightarrow> string" where
  "quote s = concat (map quote_char s)"

text \<open>Truth value of an optional string: neither \<open>None\<close> nor empty.\<close>

fun truthy :: "string option \<Rightarrow> bool" where
  "truthy None = False"
| "truthy (Some s) = (s \<noteq> [])"


section \<open>Exceptions\<close>

text \<open>
  Every exception the program can meet, with the text \<open>str(e)\<close> gives. A browser call
  that fails raises a Playwright error (a timeout is one), which carries its message.
  The text of a pydantic validation error is not reproduced: the constructor keeps the
  name of the rejected field.
\<close>

datatype exn =
    PlaywrightError string
  | IndexError string
  | UnboundLocalError string
  | ValidationError string
  | ValueError string
  | HTTPException int string

fun str_exn :: "exn \<Rightarrow> string" where
  "str_exn (PlaywrightError m) = m"
| "str_exn (IndexError m) = m"
| "str_exn (UnboundLocalError m) = m"
| "str_exn (ValidationError f) = ''validation error for Product: '' @ f"
| "str_exn (ValueError m) = m"
| "str_exn (HTTPException code detail) = str_int code @ '': '' @ detail"

fun is_HTTPException :: "exn \<Rightarrow> bool" where
  "is_HTTPException (HTTPException code detail) = True"
| "is_HTTPException e = False"

text \<open>Sequencing of a computation that may raise.\<close>

fun and_then :: "exn + 'a \<Rightarrow> ('a \<Rightarrow> exn + 'b) \<Rightarrow> exn + 'b" where
  "and_then (Inl e) f = Inl e"
| "and_then (Inr x) f = f x"


section \<open>Response models\<close>

record Product =
  title :: string
  price :: "string option"
  location :: "string option"
  date_posted :: "string option"
  image_url :: "string option"
  product_url :: string
  description :: "string option"
  seller_name :: "string option"
  seller_contact :: "string option"
  is_delivery_available :: "bool option"

text \<open>
  \<open>Product(...)\<close>: pydantic rejects a \<open>product_url\<close> that is \<open>None\<close>; a field that is not
  passed takes its default (\<open>None\<close>, and \<open>False\<close> for \<open>is_delivery_available\<close>).
\<close>

definition listing_Product ::
  "string \<Rightarrow> string option \<Rightarrow> string option \<Rightarrow> string option \<Rightarrow> string option \<Rightarrow>
   string option \<Rightarrow> exn + Product" where
  "listing_Product t pr loc dt img url =
     (case url of
        None \<Rightarrow> Inl (ValidationError ''product_url'')
      | Some u \<Rightarrow>
          Inr \<lparr>title = t, price = pr, location = loc, date_posted = dt, image_url = img,
               product_url = u, description = None, seller_name = None,
               seller_contact = None, is_delivery_available = Some False\<rparr>)"


section \<open>The browser\<close>

text \<open>
  What a browser call gives is an input of the model. A lookup is a
  \<open>query_selector\<close> followed by the reads the code makes on the element it found:
  the call or a read raises (with the message), there is no such element, or the reads
  give a value. The code does nothing between a query and its reads, so one raise stands
  for both.
\<close>

datatype 'a lookup = Raises string | Missing | Found 'a

fun lookup_result :: "'a lookup \<Rightarrow> exn + 'a option" where
  "lookup_result (Raises m) = Inl (PlaywrightError m)"
| "lookup_result Missing = Inr None"
| "lookup_result (Found x) = Inr (Some x)"

text \<open>
  A listing card (an \<open>article\<close> element), by the five lookups \<open>extract_product_info\<close> makes:
  \<^item> \<open>h2.card-title\<close> and its inner text;
  \<^item> \<open>data\<close>, its \<open>value\<close> attribute and its inner text;
  \<^item> the span after the location icon and its inner text;
  \<^item> \<open>img\<close> and its \<open>src\<close> attribute;
  \<^item> \<open>a\<close> and its \<open>href\<close> attribute.
\<close>

record card =
  q_title :: "string lookup"
  q_data :: "(string option \<times> string) lookup"
  q_location :: "string lookup"
  q_img :: "string option lookup"
  q_link :: "string option lookup"


section \<open>Listing Extractor\<close>

definition listing_price :: "(string option \<times> string) option \<Rightarrow> string option" where
  "listing_price price_elem =
     (case price_elem of
        None \<Rightarrow> None
      | Some (price_value, price_text) \<Rightarrow>
          (case price_value of
             Some v \<Rightarrow> if v \<noteq> [] then Some (v @ '' DT'')
                       else if price_text \<noteq> [] then Some (strip price_text) else None
           | None \<Rightarrow> if price_text \<noteq> [] then Some (strip price_text) else None))"

definition listing_location_date :: "string option \<Rightarrow> string option \<times> string option" where
  "listing_location_date location_and_date =
     (if truthy location_and_date then
        (case split_on CHR '','' (the location_and_date) of
           p0 # p1 # ps \<Rightarrow> (Some (strip p0), Some (strip p1))
         | _ \<Rightarrow> (Some (strip (the location_and_date)), None))
      else (None, None))"

definition listing_url :: "string option option \<Rightarrow> string option" where
  "listing_url link_elem =
     (let relative_url = (case link_elem of None \<Rightarrow> Some [] | Some href \<Rightarrow> href)
      in if truthy relative_url \<and> \<not> startswith (the relative_url) ''http''
         then Some (''https://www.tayara.tn'' @ the relative_url)
         else relative_url)"

text \<open>The body of the \<open>try\<close> of \<open>extract_product_info\<close>.\<close>

definition extract_product_try :: "card \<Rightarrow> exn + Product option" where
  "extract_product_try element =
     and_then (lookup_result (q_title element)) (\<lambda>title_elem.
     and_then (lookup_result (q_data element)) (\<lambda>price_elem.
     and_then (lookup_result (q_location element)) (\<lambda>location_elem.
     and_then (lookup_result (q_img element)) (\<lambda>img_elem.
     and_then (lookup_result (q_link element)) (\<lambda>link_elem.
       let t = (case title_elem of Some x \<Rightarrow> x | None \<Rightarrow> ''No title'');
           pr = listing_price price_elem;
           ld = listing_location_date location_elem;
           img = (case img_elem of Some src \<Rightarrow> src | None \<Rightarrow> None);
           url = listing_url link_elem
       in if t \<noteq> [] \<and> strip t \<noteq> []
          then and_then (listing_Product (strip t) pr (fst ld) (snd ld) img url)
                 (\<lambda>p. Inr (Some p))
          else Inr None)))))"

text \<open>\<open>extract_product_info\<close>: any exception is logged and the card gives \<open>None\<close>.\<close>

definition extract_product_info :: "card \<Rightarrow> Product option" where
  "extract_product_info element =
     (case extract_product_try element of
        Inl e \<Rightarrow> None
      | Inr r \<Rightarrow> r)"

text \<open>
  A listing page as the browser gives it: whether launching the browser raises, whether
  a call from \<open>new_context\<close> to \<open>query_selector_all('article')\<close> raises (navigation and the
  wait for the first \<open>article\<close> are among them), the \<open>article\<close> elements in document
  order, and whether \<open>browser.close()\<close> raises.
\<close>

record listing_page =
  lp_launch :: "string option"
  lp_load :: "string option"
  lp_articles :: "card list"
  lp_close :: "string option"

text \<open>The \<open>for element in product_elements\<close> loop.\<close>

fun extract_all :: "card list \<Rightarrow> Product list \<Rightarrow> Product list" where
  "extract_all [] products_acc = products_acc"
| "extract_all (element # rest) products_acc =
     (case extract_product_info element of
        Some product_data \<Rightarrow> extract_all rest (products_acc @ [product_data])
      | None \<Rightarrow> extract_all rest products_acc)"

text \<open>
  \<open>scrape_products_per_page\<close>: the launch is outside the \<open>try\<close>; an exception inside it
  is raised again as a \<open>ValueError\<close>; \<open>browser.close()\<close> runs in the \<open>finally\<close>, and an
  exception of its own replaces the outcome.
\<close>

definition scrape_products_per_page :: "string \<Rightarrow> listing_page \<Rightarrow> exn + Product list" where
  "scrape_products_per_page url pg =
     (case lp_launch pg of
        Some m \<Rightarrow> Inl (PlaywrightError m)
      | None \<Rightarrow>
          (let body =
                 (case lp_load pg of
                    Some m \<Rightarrow> Inl (ValueError (''Scraping failed: '' @ m @ '' for page url '' @ url))
                  | None \<Rightarrow> Inr (extract_all (lp_articles pg) []))
           in case lp_close pg of
                Some m \<Rightarrow> Inl (PlaywrightError m)
              | None \<Rightarrow> body))"


section \<open>URL Builder\<close>

definition BASE_URL :: string where
  "BASE_URL = ''https://www.tayara.tn/ads''"

definition build_url ::
  "string \<Rightarrow> string \<Rightarrow> string option \<Rightarrow> string option \<Rightarrow> string option \<Rightarrow>
   int option \<Rightarrow> int option \<Rightarrow> int option \<Rightarrow> string" where
  "build_url query category subcategory city condition min_price max_price page =
     (let path_segments = [];
          path_segments = (if category \<noteq> [] then path_segments @ [''c/'' @ quote category]
                           else path_segments);
          path_segments = (if truthy subcategory then path_segments @ [quote (the subcategory)]
                           else path_segments);
          path_segments = (if truthy city then path_segments @ [''l/'' @ quote (the city)]
                           else path_segments);
          path_segments = (if truthy condition then path_segments @ [''t/'' @ quote (the condition)]
                           else path_segments);
          path_segments = (if query \<noteq> [] then path_segments @ [''k/'' @ quote query]
                           else path_segments);
          url = BASE_URL @ ''/'' @ join ''/'' path_segments @ ''/'';
          params = [];
          params = (case min_price of Some lo \<Rightarrow> params @ [''minPrice='' @ str_int lo]
                    | None \<Rightarrow> params);
          params = (case max_price of Some hi \<Rightarrow> params @ [''maxPrice='' @ str_int hi]
                    | None \<Rightarrow> params);
          params = (case page of
                      Some n \<Rightarrow> if n \<noteq> 0 then params @ [''page='' @ str_int n] else params
                    | None \<Rightarrow> params)
      in if params \<noteq> [] then url @ ''?'' @ join ''&'' params else url)"


section \<open>Pagination Controller\<close>

text \<open>
  The \<open>while\<close> loop of \<open>scrape_products\<close>. \<open>fetch\<close> is the body of the \<open>try\<close> up to the
  result of \<open>scrape_products_per_page\<close> for a page number; \<open>visited\<close> records the pages
  for which that call was made, in order.
\<close>

function scrape_loop ::
  "(int \<Rightarrow> exn + Product list) \<Rightarrow> int \<Rightarrow> int \<Rightarrow> Product list \<Rightarrow> int list \<Rightarrow>
   int list \<times> Product list" where
  "scrape_loop fetch max_pages current_page all_products visited =
     (if current_page \<le> max_pages then
        (case fetch current_page of
           Inl e \<Rightarrow>
             scrape_loop fetch max_pages (current_page + 1) all_products
               (visited @ [current_page])
         | Inr products_per_page \<Rightarrow>
             if products_per_page = [] then (visited @ [current_page], all_products)
             else if length products_per_page < 30
               then (visited @ [current_page], all_products @ products_per_page)
             else scrape_loop fetch max_pages (current_page + 1)
                    (all_products @ products_per_page) (visited @ [current_page]))
      else (visited, all_products))"
  by pat_completeness auto
termination
  by (relation "measure (\<lambda>(fetch, max_pages, current_page, all_products, visited).
                  nat (max_pages + 1 - current_page))") auto

declare scrape_loop.simps [simp del]

text \<open>The dictionary \<open>scrape_products\<close> returns.\<close>

record result_dict =
  d_success :: bool
  d_total_products :: int
  d_products :: "Product list"

text \<open>
  \<open>scrape_products\<close>, on a site that gives a listing page for each URL. The first
  component is the list of URLs handed to \<open>scrape_products_per_page\<close>, in order.
\<close>

definition page_url ::
  "string \<Rightarrow> string \<Rightarrow> string option \<Rightarrow> string option \<Rightarrow> string option \<Rightarrow>
   int option \<Rightarrow> int option \<Rightarrow> int \<Rightarrow> string" where
  "page_url query category subcategory city condition min_price max_price current_page =
     build_url query category subcategory city condition min_price max_price (Some current_page)"

definition scrape_products ::
  "(string \<Rightarrow> listing_page) \<Rightarrow> string \<Rightarrow> string \<Rightarrow> string option \<Rightarrow> string option \<Rightarrow>
   string option \<Rightarrow> int option \<Rightarrow> int option \<Rightarrow> int \<Rightarrow> string list \<times> result_dict" where
  "scrape_products web query category subcategory city condition min_price max_price max_pages =
     (let url_of = page_url query category subcategory city condition min_price max_price;
          run = scrape_loop (\<lambda>current_page.
                   scrape_products_per_page (url_of current_page) (web (url_of current_page)))
                 max_pages 1 [] [];
          all_products = snd run
      in (map url_of (fst run),
          \<lparr>d_success = True, d_total_products = int (length all_products),
           d_products = all_products\<rparr>))"


section \<open>Detail Extractor\<close>

text \<open>
  A detail page as the browser gives it, by the calls \<open>get_product_page_info\<close> makes, in
  its order:
  \<^item> launching the browser, and the calls from \<open>new_context\<close> to the wait for \<open>body\<close>
    (a message when one raises);
  \<^item> the title span and its inner text; the seller span and its inner text;
  \<^item> \<open>data\<close> with its \<open>value\<close> attribute, and what reading its inner text gives
    (\<open>Inl\<close> a message when it raises), which the code reads only when the attribute is
    missing or empty;
  \<^item> the description paragraph and its text content; the location span and its text
    content (the text content of an element is a string);
  \<^item> the delivery container, and inside it the second child span with its text content;
  \<^item> the reveal buttons (\<open>Inl\<close> a message when \<open>query_selector_all\<close> raises), each by
    what its \<open>click()\<close> does (\<open>None\<close> returns, \<open>Some\<close> a message raises);
  \<^item> the wait for the \<open>tel:\<close> link after the click, and the link's text content;
  \<^item> \<open>img\<close> and its \<open>src\<close> attribute; and \<open>browser.close()\<close>.
\<close>

record detail_page =
  dp_launch :: "string option"
  dp_load :: "string option"
  dp_title :: "string lookup"
  dp_seller :: "string lookup"
  dp_data :: "(string option \<times> (string + string)) lookup"
  dp_description :: "string lookup"
  dp_location :: "string lookup"
  dp_delivery :: "string lookup lookup"
  dp_buttons :: "string + string option list"
  dp_tel :: "string lookup"
  dp_img :: "string option lookup"
  dp_close :: "string option"

text \<open>A local variable that a path through the function may leave unassigned.\<close>

datatype 'a local_var = Unbound | Bound 'a

definition detail_title :: "detail_page \<Rightarrow> exn + string" where
  "detail_title pg =
     and_then (lookup_result (dp_title pg)) (\<lambda>title_elem.
       Inr (case title_elem of
              None \<Rightarrow> ''No title''
            | Some title_text \<Rightarrow>
                if title_text \<noteq> [] \<and> strip title_text \<noteq> [] then strip title_text
                else ''No title''))"

definition detail_seller :: "detail_page \<Rightarrow> exn + string option" where
  "detail_seller pg =
     and_then (lookup_result (dp_seller pg)) (\<lambda>seller_elem.
       Inr (case seller_elem of
              None \<Rightarrow> None
            | Some seller_text \<Rightarrow>
                if seller_text \<noteq> [] \<and> length (strip seller_text) > 0
                then Some (strip seller_text) else None))"

text \<open>Lines 352 to 360: the description from the paragraph's text.\<close>

definition detail_description :: "string \<Rightarrow> string" where
  "detail_description full_text =
     (case before_marker ''Tel:'' full_text of
        Some g \<Rightarrow> collapse_ws (strip g)
      | None \<Rightarrow> strip full_text)"

text \<open>
  Lines 338 to 360. The description block is indented under \<open>if price_elem:\<close>, so it runs
  only when a \<open>data\<close> element was found, and \<open>description\<close> is assigned only when the
  paragraph was found too.
\<close>

definition detail_price_description ::
  "detail_page \<Rightarrow> exn + (string option \<times> string local_var)" where
  "detail_price_description pg =
     and_then (lookup_result (dp_data pg)) (\<lambda>price_elem.
       case price_elem of
         None \<Rightarrow> Inr (None, Unbound)
       | Some (price_value, price_text) \<Rightarrow>
           and_then
             (if truthy price_value then Inr (Some (the price_value @ '' DT''))
              else (case price_text of
                      Inl m \<Rightarrow> Inl (PlaywrightError m)
                    | Inr txt \<Rightarrow> Inr (if txt \<noteq> [] then Some (strip txt) else None)))
             (\<lambda>pr.
                and_then (lookup_result (dp_description pg)) (\<lambda>description_elem.
                  case description_elem of
                    None \<Rightarrow> Inr (pr, Unbound)
                  | Some full_text \<Rightarrow> Inr (pr, Bound (detail_description full_text)))))"

text \<open>Lines 362 to 371: \<open>text_elems[1]\<close> raises when the text has no comma.\<close>

definition detail_location_date :: "detail_page \<Rightarrow> exn + (string option \<times> string option)" where
  "detail_location_date pg =
     and_then (lookup_result (dp_location pg)) (\<lambda>location_elem.
       case location_elem of
         None \<Rightarrow> Inr (None, None)
       | Some text \<Rightarrow>
           if text \<noteq> [] then
             (case split_on CHR '','' text of
                p0 # p1 # ps \<Rightarrow> Inr (Some (strip p0), Some (strip p1))
              | _ \<Rightarrow> Inl (IndexError ''list index out of range''))
           else Inr (None, None))"

definition detail_delivery :: "detail_page \<Rightarrow> exn + bool" where
  "detail_delivery pg =
     and_then (lookup_result (dp_delivery pg)) (\<lambda>container.
       case container of
         None \<Rightarrow> Inr False
       | Some status \<Rightarrow>
           and_then (lookup_result status) (\<lambda>status_elem.
             case status_elem of
               None \<Rightarrow> Inr False
             | Some status_text \<Rightarrow>
                 Inr (status_text \<noteq> [] \<and> lower (strip status_text) = ''oui'')))"

text \<open>The body of the inner \<open>try\<close> (lines 389 to 399): the value of \<open>seller_contact\<close>.\<close>

definition contact_try :: "detail_page \<Rightarrow> exn + string option" where
  "contact_try pg =
     (case dp_buttons pg of
        Inl m \<Rightarrow> Inl (PlaywrightError m)
      | Inr buttons \<Rightarrow>
          if buttons \<noteq> [] then
            (case buttons of
               b0 # phone_button # bs \<Rightarrow>
                 (case phone_button of
                    Some m \<Rightarrow> Inl (PlaywrightError m)
                  | None \<Rightarrow>
                      and_then (lookup_result (dp_tel pg)) (\<lambda>seller_contact_elem.
                        case seller_contact_elem of
                          None \<Rightarrow> Inr None
                        | Some txt \<Rightarrow>
                            Inr (if txt \<noteq> [] then Some (strip (drop 4 txt)) else Some txt)))
             | _ \<Rightarrow> Inl (IndexError ''list index out of range''))
          else Inr None)"

text \<open>
  The inner \<open>try\<close> with its \<open>except\<close>: the contact, and the warning that is logged when
  the sequence raised.
\<close>

definition detail_contact :: "detail_page \<Rightarrow> string option \<times> string option" where
  "detail_contact pg =
     (case contact_try pg of
        Inl e \<Rightarrow> (None, Some (''Could not extract contact info: '' @ str_exn e))
      | Inr c \<Rightarrow> (c, None))"

definition detail_image :: "detail_page \<Rightarrow> exn + string option" where
  "detail_image pg =
     and_then (lookup_result (dp_img pg)) (\<lambda>img_elem.
       Inr (case img_elem of None \<Rightarrow> None | Some src \<Rightarrow> src))"

text \<open>
  Reading \<open>description\<close> for the call of \<open>Product\<close>; the message is the one of
  CPython 3.11 and later.
\<close>

definition read_description :: "string local_var \<Rightarrow> exn + string" where
  "read_description v =
     (case v of
        Unbound \<Rightarrow> Inl (UnboundLocalError
          ''cannot access local variable 'description' where it is not associated with a value'')
      | Bound d \<Rightarrow> Inr d)"

text \<open>Lines 322 to 420: the extraction after the page has loaded.\<close>

definition detail_fields :: "string \<Rightarrow> detail_page \<Rightarrow> exn + Product" where
  "detail_fields url pg =
     and_then (detail_title pg) (\<lambda>t.
     and_then (detail_seller pg) (\<lambda>seller.
     and_then (detail_price_description pg) (\<lambda>pd.
     and_then (detail_location_date pg) (\<lambda>ld.
     and_then (detail_delivery pg) (\<lambda>is_delivery.
     and_then (Inr (fst (detail_contact pg))) (\<lambda>contact.
     and_then (detail_image pg) (\<lambda>img.
     and_then (read_description (snd pd)) (\<lambda>d.
       Inr \<lparr>title = t, price = fst pd, location = fst ld, date_posted = snd ld,
            image_url = img, product_url = url, description = Some d,
            seller_name = seller, seller_contact = contact,
            is_delivery_available = Some is_delivery\<rparr>))))))))"

text \<open>
  \<open>get_product_page_info\<close>: the launch is outside the \<open>try\<close>; an exception inside it is
  raised again as a \<open>ValueError\<close>; \<open>browser.close()\<close> runs in the \<open>finally\<close>.
\<close>

definition get_product_page_info :: "string \<Rightarrow> detail_page \<Rightarrow> exn + Product" where
  "get_product_page_info url pg =
     (case dp_launch pg of
        Some m \<Rightarrow> Inl (PlaywrightError m)
      | None \<Rightarrow>
          (let body = (case dp_load pg of
                         Some m \<Rightarrow> Inl (PlaywrightError m)
                       | None \<Rightarrow> detail_fields url pg);
               wrapped = (case body of
                            Inl e \<Rightarrow> Inl (ValueError (''Failed to extract product info: '' @ str_exn e))
                          | Inr p \<Rightarrow> Inr p)
           in case dp_close pg of
                Some m \<Rightarrow> Inl (PlaywrightError m)
              | None \<Rightarrow> wrapped))"


section \<open>HTTP Facade\<close>

text \<open>
  The two response models have the fields \<open>success\<close> and \<open>error\<close> in common; they are
  declared once, so that both keep the names of the source.
\<close>

record Response =
  success :: bool
  error :: "string option"

record SearchResponse = Response +
  total_products :: int
  products :: "Product list"

record ProductResponse = Response +
  product :: Product

text \<open>
  An endpoint gives the URLs for which a browser was launched, in order, and either the
  exception it lets through to the framework or its response.
\<close>

text \<open>
  The scraper object an endpoint calls, by its method \<open>scrape_products\<close>: the URLs it
  requested, and the exception it raised or the dictionary it returned. The endpoint is
  written over the scraper, as its code is; the scraper of the module is \<open>TayaraScraper\<close>
  on the site.
\<close>

type_synonym scraper =
  "string \<Rightarrow> string \<Rightarrow> string option \<Rightarrow> string option \<Rightarrow> string option \<Rightarrow>
   int option \<Rightarrow> int option \<Rightarrow> int \<Rightarrow> string list \<times> (exn + result_dict)"

definition TayaraScraper :: "(string \<Rightarrow> listing_page) \<Rightarrow> scraper" where
  "TayaraScraper web query category subcategory city condition min_price max_price max_pages =
     (let r = scrape_products web query category subcategory city condition min_price max_price
                max_pages
      in (fst r, Inr (snd r)))"

text \<open>The body of the \<open>try\<close> of \<open>search_products\<close>.\<close>

definition search_try ::
  "scraper \<Rightarrow> string \<Rightarrow> string \<Rightarrow> string option \<Rightarrow> string option \<Rightarrow>
   string option \<Rightarrow> int option \<Rightarrow> int option \<Rightarrow> int \<Rightarrow>
   string list \<times> (exn + SearchResponse)" where
  "search_try scraper query category subcategory city status min_price max_price max_pages =
     (if min_price \<noteq> None \<and> max_price \<noteq> None \<and> the min_price > the max_price
      then ([], Inl (HTTPException 400 ''min_price cannot be greater than max_price''))
      else (let r = scraper query category subcategory city status min_price max_price max_pages
            in (fst r,
                and_then (snd r) (\<lambda>result.
                  Inr \<lparr>success = d_success result, error = None,
                       total_products = d_total_products result,
                       products = d_products result\<rparr>))))"

text \<open>The \<open>except\<close> clauses of \<open>search_products\<close>.\<close>

definition search_except :: "exn \<Rightarrow> exn + SearchResponse" where
  "search_except e =
     (if is_HTTPException e then Inl e
      else Inr \<lparr>success = False, error = Some (str_exn e), total_products = 0, products = []\<rparr>)"

text \<open>\<open>search_products\<close>, over the scraper it calls.\<close>

definition search_products_with ::
  "scraper \<Rightarrow> string \<Rightarrow> string \<Rightarrow> string option \<Rightarrow> string option \<Rightarrow>
   string option \<Rightarrow> int option \<Rightarrow> int option \<Rightarrow> int \<Rightarrow>
   string list \<times> (exn + SearchResponse)" where
  "search_products_with scraper query category subcategory city status min_price max_price
     max_pages =
     (let r = search_try scraper query category subcategory city status min_price max_price
                max_pages
      in case snd r of
           Inl e \<Rightarrow> (fst r, search_except e)
         | Inr response \<Rightarrow> (fst r, Inr response))"

text \<open>\<open>search_products\<close> with the scraper of the module, on a site.\<close>

definition search_products ::
  "(string \<Rightarrow> listing_page) \<Rightarrow> string \<Rightarrow> string \<Rightarrow> string option \<Rightarrow> string option \<Rightarrow>
   string option \<Rightarrow> int option \<Rightarrow> int option \<Rightarrow> int \<Rightarrow>
   string list \<times> (exn + SearchResponse)" where
  "search_products web query category subcategory city status min_price max_price max_pages =
     search_products_with (TayaraScraper web) query category subcategory city status min_price
       max_price max_pages"

text \<open>\<open>Product(title="Error", product_url=url)\<close>\<close>

definition error_Product :: "string \<Rightarrow> Product" where
  "error_Product url =
     \<lparr>title = ''Error'', price = None, location = None, date_posted = None, image_url = None,
      product_url = url, description = None, seller_name = None, seller_contact = None,
      is_delivery_available = Some False\<rparr>"

definition product_try ::
  "(string \<Rightarrow> detail_page) \<Rightarrow> string \<Rightarrow> string list \<times> (exn + ProductResponse)" where
  "product_try web url =
     (if \<not> startswith url ''https://www.tayara.tn/''
      then ([], Inl (HTTPException 400 ''URL must be a valid Tayara.tn product URL''))
      else ([url],
            and_then (get_product_page_info url (web url)) (\<lambda>p.
              Inr \<lparr>success = True, error = None, product = p\<rparr>)))"

text \<open>The \<open>except\<close> clauses of \<open>get_product_info\<close>: both handlers build the same response.\<close>

definition product_except :: "string \<Rightarrow> exn \<Rightarrow> exn + ProductResponse" where
  "product_except url e =
     (if is_HTTPException e then Inl e
      else Inr \<lparr>success = False, error = Some (str_exn e), product = error_Product url\<rparr>)"

definition get_product_info ::
  "(string \<Rightarrow> detail_page) \<Rightarrow> string \<Rightarrow> string list \<times> (exn + ProductResponse)" where
  "get_product_info web url =
     (let r = product_try web url
      in case snd r of
           Inl e \<Rightarrow> (fst r, product_except url e)
         | Inr response \<Rightarrow> (fst r, Inr response))"


section \<open>Notions used to state the properties\<close>

text \<open>A lookup that raised.\<close>

fun raises :: "'a lookup \<Rightarrow> bool" where
  "raises (Raises m) = True"
| "raises Missing = False"
| "raises (Found x) = False"

text \<open>
  The title text of a card: the inner text of its title element, and the placeholder
  when it has none.
\<close>

definition title_text :: "card \<Rightarrow> string" where
  "title_text c = (case q_title c of Found t \<Rightarrow> t | _ \<Rightarrow> ''No title'')"

text \<open>
  A card that extracts: no lookup raises, the title text is not blank, and the link,
  when there is one, has an \<open>href\<close>.
\<close>

definition card_valid :: "card \<Rightarrow> bool" where
  "card_valid c =
     (\<not> raises (q_title c) \<and> \<not> raises (q_data c) \<and> \<not> raises (q_location c) \<and>
      \<not> raises (q_img c) \<and> \<not> raises (q_link c) \<and>
      strip (title_text c) \<noteq> [] \<and> q_link c \<noteq> Found None)"

text \<open>A record without any of the fields that only a detail page gives.\<close>

definition listing_only :: "Product \<Rightarrow> bool" where
  "listing_only p =
     (description p = None \<and> seller_name p = None \<and> seller_contact p = None \<and>
      is_delivery_available p = Some False)"

text \<open>
  The outcome of one page lets the loop go on to the next page: the page raised, or it
  gave at least 30 products. \<open>got\<close> is what the page adds to the aggregate.
\<close>

fun continues :: "exn + Product list \<Rightarrow> bool" where
  "continues (Inl e) = True"
| "continues (Inr ps) = (30 \<le> length ps)"

fun got :: "exn + Product list \<Rightarrow> Product list" where
  "got (Inl e) = []"
| "got (Inr ps) = ps"

text \<open>The outcome of the page with a given number, for the filters of a search.\<close>

definition page_result ::
  "(string \<Rightarrow> listing_page) \<Rightarrow> string \<Rightarrow> string \<Rightarrow> string option \<Rightarrow> string option \<Rightarrow>
   string option \<Rightarrow> int option \<Rightarrow> int option \<Rightarrow> int \<Rightarrow> exn + Product list" where
  "page_result web query category subcategory city condition min_price max_price current_page =
     scrape_products_per_page
       (page_url query category subcategory city condition min_price max_price current_page)
       (web (page_url query category subcategory city condition min_price max_price
               current_page))"


text \<open>
  The URL as the specification words it: one path segment for each field that is present
  (neither \<open>None\<close> nor empty), in the order category, subcategory, city, condition, query,
  each with its prefix and percent-encoded; and the parameters \<open>minPrice\<close>, \<open>maxPrice\<close>
  and \<open>page\<close> that are given, the page only when it is not 0.
\<close>

definition segment :: "string \<Rightarrow> string option \<Rightarrow> string list" where
  "segment prefix v = (if truthy v then [prefix @ quote (the v)] else [])"

definition spec_segments ::
  "string \<Rightarrow> string \<Rightarrow> string option \<Rightarrow> string option \<Rightarrow> string option \<Rightarrow> string list" where
  "spec_segments query category subcategory city condition =
     segment ''c/'' (Some category) @ segment [] subcategory @ segment ''l/'' city @
     segment ''t/'' condition @ segment ''k/'' (Some query)"

definition param :: "string \<Rightarrow> int option \<Rightarrow> string list" where
  "param name v = (case v of Some n \<Rightarrow> [name @ ''='' @ str_int n] | None \<Rightarrow> [])"

definition spec_params :: "int option \<Rightarrow> int option \<Rightarrow> int option \<Rightarrow> string list" where
  "spec_params min_price max_price page =
     param ''minPrice'' min_price @ param ''maxPrice'' max_price @
     (if page = Some 0 then [] else param ''page'' page)"


section \<open>Sample inputs\<close>

text \<open>Cards and pages on which the properties below are evaluated.\<close>

definition card_phone :: card where
  "card_phone =
     \<lparr>q_title = Found '' Phone '', q_data = Found (Some ''150'', ''150 DT''),
      q_location = Found ''Tunis, 2 days ago'', q_img = Found (Some ''p.jpg''),
      q_link = Found (Some ''/item/1'')\<rparr>"

definition product_phone :: Product where
  "product_phone =
     \<lparr>title = ''Phone'', price = Some ''150 DT'', location = Some ''Tunis'',
      date_posted = Some ''2 days ago'', image_url = Some ''p.jpg'',
      product_url = ''https://www.tayara.tn/item/1'', description = None,
      seller_name = None, seller_contact = None, is_delivery_available = Some False\<rparr>"

definition card_blank :: card where
  "card_blank =
     \<lparr>q_title = Found ''  '', q_data = Missing, q_location = Missing, q_img = Missing,
      q_link = Found (Some ''/item/2'')\<rparr>"

definition card_untitled :: card where
  "card_untitled =
     \<lparr>q_title = Missing, q_data = Missing, q_location = Missing, q_img = Missing,
      q_link = Found (Some ''/item/3'')\<rparr>"

definition product_untitled :: Product where
  "product_untitled =
     \<lparr>title = ''No title'', price = None, location = None, date_posted = None,
      image_url = None, product_url = ''https://www.tayara.tn/item/3'', description = None,
      seller_name = None, seller_contact = None, is_delivery_available = Some False\<rparr>"

definition card_broken :: card where
  "card_broken =
     \<lparr>q_title = Found ''Desk'', q_data = Missing, q_location = Missing,
      q_img = Raises ''Element is not attached to the DOM'', q_link = Missing\<rparr>"

definition page_of :: "card list \<Rightarrow> listing_page" where
  "page_of cs = \<lparr>lp_launch = None, lp_load = None, lp_articles = cs, lp_close = None\<rparr>"


definition site_three_pages :: "string \<Rightarrow> listing_page" where
  "site_three_pages u =
     page_of (replicate
       (if u = ''https://www.tayara.tn/ads/c/Phones/k/iPhone/?page=3'' then 12 else 30)
       card_phone)"

definition site_no_results :: "string \<Rightarrow> listing_page" where
  "site_no_results u = page_of [card_blank]"


text \<open>A detail page on which every field is found, and the same page when navigation times out.\<close>

definition detail_sample :: detail_page where
  "detail_sample =
     \<lparr>dp_launch = None, dp_load = None, dp_title = Found ''iPhone 12'',
      dp_seller = Found '' Ali '', dp_data = Found (Some ''1500'', Inr ''1500 DT''),
      dp_description = Found ''Great phone.  Tel: 12345678 extra'',
      dp_location = Found ''Tunis, 2 days ago'', dp_delivery = Found (Found ''Oui''),
      dp_buttons = Inr [None, None], dp_tel = Found ''Tel: 12345678'',
      dp_img = Found (Some ''p.jpg''), dp_close = None\<rparr>"

definition product_sample :: "string \<Rightarrow> Product" where
  "product_sample url =
     \<lparr>title = ''iPhone 12'', price = Some ''1500 DT'', location = Some ''Tunis'',
      date_posted = Some ''2 days ago'', image_url = Some ''p.jpg'', product_url = url,
      description = Some ''Great phone.'', seller_name = Some ''Ali'',
      seller_contact = Some ''12345678'', is_delivery_available = Some True\<rparr>"

definition detail_timeout :: detail_page where
  "detail_timeout = detail_sample\<lparr>dp_load := Some ''Timeout 30000ms exceeded.''\<rparr>"


text \<open>The same page with a single reveal button, and with a \<open>tel:\<close> link that never appears.\<close>

definition detail_one_button :: detail_page where
  "detail_one_button = detail_sample\<lparr>dp_buttons := Inr [None]\<rparr>"

definition detail_tel_timeout :: detail_page where
  "detail_tel_timeout = detail_sample\<lparr>dp_tel := Raises ''Timeout 5000ms exceeded.''\<rparr>"


text \<open>A scraper whose call raises before any page is requested.\<close>

definition failing_scraper :: scraper where
  "failing_scraper query category subcategory city condition min_price max_price max_pages =
     ([], Inl (PlaywrightError ''Executable does not exist''))"


section \<open>Auxiliary facts\<close>

subsection \<open>Text\<close>

lemma strip_Nil: "strip [] = []"
  by (simp add: strip_def)

subsection \<open>Listing cards\<close>

lemma listing_url_None: "listing_url l = None \<longleftrightarrow> l = Some None"
proof (cases l)
  case None
  then show ?thesis by (simp add: listing_url_def)
next
  case (Some href)
  then show ?thesis by (cases href) (simp_all add: listing_url_def Let_def)
qed

lemma listing_Product_fields:
  "listing_Product t pr loc dt img url = Inr p \<Longrightarrow>
     url \<noteq> None \<and> title p = t \<and> description p = None \<and> seller_name p = None \<and>
     seller_contact p = None \<and> is_delivery_available p = Some False"
  by (auto simp: listing_Product_def split: option.splits)

lemma listing_Product_ok:
  "url \<noteq> None \<Longrightarrow> \<exists>p. listing_Product t pr loc dt img url = Inr p"
  by (auto simp: listing_Product_def split: option.splits)

lemma lookup_result_Inr:
  "lookup_result l = Inr x \<longleftrightarrow>
     \<not> raises l \<and> x = (case l of Found v \<Rightarrow> Some v | _ \<Rightarrow> None)"
  by (cases l) auto

lemma and_then_Inr: "and_then m f = Inr y \<longleftrightarrow> (\<exists>x. m = Inr x \<and> f x = Inr y)"
  by (cases m) simp_all

lemma title_text_lookup:
  "lookup_result (q_title c) = Inr te \<Longrightarrow>
     (case te of Some x \<Rightarrow> x | None \<Rightarrow> ''No title'') = title_text c"
  by (cases "q_title c") (auto simp: title_text_def)

lemma link_lookup:
  "lookup_result (q_link c) = Inr ke \<Longrightarrow> (ke = Some None) = (q_link c = Found None)"
  by (cases "q_link c") auto

lemma extract_try_Some:
  assumes h: "extract_product_try c = Inr (Some p)"
  shows "card_valid c \<and> title p = strip (title_text c) \<and> description p = None \<and>
         seller_name p = None \<and> seller_contact p = None \<and>
         is_delivery_available p = Some False"
proof -
  from h obtain te pe le ie ke where
      q: "lookup_result (q_title c) = Inr te" "lookup_result (q_data c) = Inr pe"
         "lookup_result (q_location c) = Inr le" "lookup_result (q_img c) = Inr ie"
         "lookup_result (q_link c) = Inr ke"
    and body0: "(let t = (case te of Some x \<Rightarrow> x | None \<Rightarrow> ''No title'');
                     pr = listing_price pe;
                     ld = listing_location_date le;
                     img = (case ie of Some src \<Rightarrow> src | None \<Rightarrow> None);
                     url = listing_url ke
                 in if t \<noteq> [] \<and> strip t \<noteq> []
                    then and_then (listing_Product (strip t) pr (fst ld) (snd ld) img url)
                           (\<lambda>p. Inr (Some p))
                    else Inr None) = Inr (Some p)"
    unfolding extract_product_try_def and_then_Inr by blast
  have body: "(if strip (title_text c) \<noteq> []
                then and_then (listing_Product (strip (title_text c)) (listing_price pe)
                       (fst (listing_location_date le)) (snd (listing_location_date le))
                       (case ie of Some src \<Rightarrow> src | None \<Rightarrow> None) (listing_url ke))
                     (\<lambda>p. Inr (Some p))
                else Inr None) = Inr (Some p)"
    using body0 unfolding Let_def title_text_lookup [OF q(1)]
    by (simp add: strip_Nil split: if_splits)
  from body have ne: "strip (title_text c) \<noteq> []"
    by (auto split: if_splits)
  with body obtain p' where
      lp: "listing_Product (strip (title_text c)) (listing_price pe)
             (fst (listing_location_date le)) (snd (listing_location_date le))
             (case ie of Some src \<Rightarrow> src | None \<Rightarrow> None) (listing_url ke) = Inr p'"
      and "Some p' = Some p"
    by (auto simp: and_then_Inr)
  then have lp': "listing_Product (strip (title_text c)) (listing_price pe)
             (fst (listing_location_date le)) (snd (listing_location_date le))
             (case ie of Some src \<Rightarrow> src | None \<Rightarrow> None) (listing_url ke) = Inr p"
    by simp
  note f = listing_Product_fields [OF lp']
  from f have "ke \<noteq> Some None" by (simp add: listing_url_None)
  with q(5) have "q_link c \<noteq> Found None" by (simp add: link_lookup)
  moreover from q have "\<not> raises (q_title c)" "\<not> raises (q_data c)" "\<not> raises (q_location c)"
      "\<not> raises (q_img c)" "\<not> raises (q_link c)"
    by (simp_all add: lookup_result_Inr)
  ultimately have "card_valid c" using ne by (simp add: card_valid_def)
  with f show ?thesis by simp
qed

lemma lookup_result_not_raises:
  "\<not> raises l \<Longrightarrow> lookup_result l = Inr (case l of Found v \<Rightarrow> Some v | _ \<Rightarrow> None)"
  by (cases l) auto

lemma extract_try_valid:
  assumes v: "card_valid c"
  shows "\<exists>p. extract_product_try c = Inr (Some p)"
proof -
  from v have r: "lookup_result (q_title c) = Inr (case q_title c of Found v \<Rightarrow> Some v | _ \<Rightarrow> None)"
      "lookup_result (q_data c) = Inr (case q_data c of Found v \<Rightarrow> Some v | _ \<Rightarrow> None)"
      "lookup_result (q_location c) = Inr (case q_location c of Found v \<Rightarrow> Some v | _ \<Rightarrow> None)"
      "lookup_result (q_img c) = Inr (case q_img c of Found v \<Rightarrow> Some v | _ \<Rightarrow> None)"
      "lookup_result (q_link c) = Inr (case q_link c of Found v \<Rightarrow> Some v | _ \<Rightarrow> None)"
    by (simp_all add: card_valid_def lookup_result_not_raises)
  from v have ne: "strip (title_text c) \<noteq> []" by (simp add: card_valid_def)
  then have ne': "title_text c \<noteq> []" by (auto simp: strip_Nil)
  from v r(5) have "(case q_link c of Found v \<Rightarrow> Some v | _ \<Rightarrow> None) \<noteq> Some None"
    by (simp add: card_valid_def link_lookup)
  then have u: "listing_url (case q_link c of Found v \<Rightarrow> Some v | _ \<Rightarrow> None) \<noteq> None"
    by (simp add: listing_url_None)
  show ?thesis
    unfolding extract_product_try_def Let_def r and_then.simps title_text_lookup [OF r(1)]
    using ne ne' listing_Product_ok [OF u] by (auto simp: and_then_Inr)
qed

lemma extract_info_Some_iff: "(\<exists>p. extract_product_info c = Some p) \<longleftrightarrow> card_valid c"
proof
  assume "\<exists>p. extract_product_info c = Some p"
  then obtain p where "extract_product_try c = Inr (Some p)"
    by (auto simp: extract_product_info_def split: sum.splits)
  then show "card_valid c" by (simp add: extract_try_Some)
next
  assume "card_valid c"
  then show "\<exists>p. extract_product_info c = Some p"
    using extract_try_valid [of c] by (auto simp: extract_product_info_def)
qed

lemma extract_all_acc:
  "extract_all cs acc = acc @ List.map_filter extract_product_info cs"
  by (induction cs arbitrary: acc) (auto simp: List.map_filter_simps split: option.splits)

lemma length_map_filter_valid:
  "length (List.map_filter extract_product_info cs) = length (filter card_valid cs)"
proof (induction cs)
  case Nil
  show ?case by (simp add: List.map_filter_simps)
next
  case (Cons c cs)
  show ?case
  proof (cases "card_valid c")
    case True
    then obtain p where "extract_product_info c = Some p"
      using extract_info_Some_iff by blast
    with True Cons show ?thesis by (simp add: List.map_filter_simps)
  next
    case False
    then have "extract_product_info c = None"
      using extract_info_Some_iff [of c] by (cases "extract_product_info c") auto
    with False Cons show ?thesis by (simp add: List.map_filter_simps)
  qed
qed

subsection \<open>The pagination loop\<close>

lemma scrape_loop_step:
  "current_page \<le> max_pages \<Longrightarrow> continues (fetch current_page) \<Longrightarrow>
     scrape_loop fetch max_pages current_page acc vis =
     scrape_loop fetch max_pages (current_page + 1) (acc @ got (fetch current_page))
       (vis @ [current_page])"
  by (subst scrape_loop.simps) (auto split: sum.splits)

lemma scrape_loop_run:
  "(\<And>i. k \<le> i \<Longrightarrow> i < k + int n \<Longrightarrow> continues (fetch i)) \<Longrightarrow>
   k + int n \<le> max_pages + 1 \<Longrightarrow>
     scrape_loop fetch max_pages k acc vis =
     scrape_loop fetch max_pages (k + int n)
       (acc @ concat (map (\<lambda>i. got (fetch i)) [k..k + int n - 1])) (vis @ [k..k + int n - 1])"
proof (induction n arbitrary: k acc vis)
  case 0
  show ?case by simp
next
  case (Suc n)
  have c: "continues (fetch k)" using Suc.prems(1) [of k] by simp
  have le: "k \<le> max_pages" using Suc.prems(2) by simp
  have ih: "scrape_loop fetch max_pages (k + 1) (acc @ got (fetch k)) (vis @ [k]) =
            scrape_loop fetch max_pages (k + 1 + int n)
              ((acc @ got (fetch k)) @ concat (map (\<lambda>i. got (fetch i)) [k + 1..k + 1 + int n - 1]))
              ((vis @ [k]) @ [k + 1..k + 1 + int n - 1])"
    using Suc.prems by (intro Suc.IH) auto
  have u: "[k..k + int (Suc n) - 1] = k # [k + 1..k + 1 + int n - 1]"
    by (simp add: upto_rec1 [of k] add.commute add.left_commute)
  have e: "k + 1 + int n = k + int (Suc n)" by simp
  show ?case
    unfolding scrape_loop_step [where fetch = fetch and current_page = k, OF le c] ih u e by simp
qed

lemma scrape_loop_short:
  "k \<le> max_pages \<Longrightarrow> fetch k = Inr ps \<Longrightarrow> length ps < 30 \<Longrightarrow>
     scrape_loop fetch max_pages k acc vis = (vis @ [k], acc @ ps)"
  by (subst scrape_loop.simps) auto

lemma scrape_loop_done:
  "max_pages < k \<Longrightarrow> scrape_loop fetch max_pages k acc vis = (vis, acc)"
  by (subst scrape_loop.simps) auto

lemma scrape_loop_stops_short:
  assumes "1 \<le> k" "k \<le> max_pages"
    and "\<And>i. 1 \<le> i \<Longrightarrow> i < k \<Longrightarrow> continues (fetch i)"
    and "fetch k = Inr ps" "length ps < 30"
  shows "scrape_loop fetch max_pages 1 [] [] =
           ([1..k], concat (map (\<lambda>i. got (fetch i)) [1..k]))"
proof -
  define n where "n = nat (k - 1)"
  have k: "1 + int n = k" using assms(1) by (simp add: n_def)
  have "scrape_loop fetch max_pages 1 [] [] =
        scrape_loop fetch max_pages (1 + int n)
          ([] @ concat (map (\<lambda>i. got (fetch i)) [1..1 + int n - 1])) ([] @ [1..1 + int n - 1])"
    using assms(2,3) k by (intro scrape_loop_run) auto
  also have "\<dots> = ([1..k - 1] @ [k], concat (map (\<lambda>i. got (fetch i)) [1..k - 1]) @ ps)"
    unfolding k using assms(2,4,5) by (simp add: scrape_loop_short)
  also have "[1..k - 1] @ [k] = [1..k]"
    using assms(1) by (simp add: upto_rec2 [of 1 k])
  also have "concat (map (\<lambda>i. got (fetch i)) [1..k - 1]) @ ps = concat (map (\<lambda>i. got (fetch i)) [1..k])"
    using assms(1,4) by (simp add: upto_rec2 [of 1 k])
  finally show ?thesis .
qed

lemma scrape_loop_to_max:
  assumes "0 \<le> max_pages"
    and "\<And>i. 1 \<le> i \<Longrightarrow> i \<le> max_pages \<Longrightarrow> continues (fetch i)"
  shows "scrape_loop fetch max_pages 1 [] [] =
           ([1..max_pages], concat (map (\<lambda>i. got (fetch i)) [1..max_pages]))"
proof -
  define n where "n = nat max_pages"
  have k: "1 + int n = max_pages + 1" using assms(1) by (simp add: n_def)
  have "scrape_loop fetch max_pages 1 [] [] =
        scrape_loop fetch max_pages (1 + int n)
          ([] @ concat (map (\<lambda>i. got (fetch i)) [1..1 + int n - 1])) ([] @ [1..1 + int n - 1])"
    using assms(2) k by (intro scrape_loop_run) auto
  then show ?thesis
    unfolding k by (simp add: scrape_loop_done)
qed

lemma scrape_loop_all:
  "(\<And>p. p \<in> set acc \<Longrightarrow> Q p) \<Longrightarrow> (\<And>i ps p. fetch i = Inr ps \<Longrightarrow> p \<in> set ps \<Longrightarrow> Q p) \<Longrightarrow>
     p \<in> set (snd (scrape_loop fetch max_pages k acc vis)) \<Longrightarrow> Q p"
proof (induction fetch max_pages k acc vis rule: scrape_loop.induct)
  case (1 fetch max_pages current_page all_products visited)
  show ?case
  proof (cases "current_page \<le> max_pages")
    case False
    with "1.prems" show ?thesis by (subst (asm) scrape_loop.simps) auto
  next
    case le: True
    show ?thesis
    proof (cases "fetch current_page")
      case (Inl e)
      have "p \<in> set (snd (scrape_loop fetch max_pages (current_page + 1) all_products
                           (visited @ [current_page])))"
        using "1.prems"(3) le Inl by (subst (asm) scrape_loop.simps) simp
      then show ?thesis using "1.IH"(1) [OF le Inl] "1.prems"(1,2) by blast
    next
      case (Inr ps)
      show ?thesis
      proof (cases "ps = [] \<or> length ps < 30")
        case True
        with "1.prems" le Inr show ?thesis
          by (subst (asm) scrape_loop.simps) (auto split: if_splits)
      next
        case False
        then have ne: "ps \<noteq> []" and full: "\<not> length ps < 30" by auto
        have m: "p \<in> set (snd (scrape_loop fetch max_pages (current_page + 1)
                     (all_products @ ps) (visited @ [current_page])))"
          using "1.prems"(3) le Inr ne full by (subst (asm) scrape_loop.simps) simp
        have "\<And>q. q \<in> set (all_products @ ps) \<Longrightarrow> Q q"
          using "1.prems"(1,2) Inr by auto
        then show ?thesis
          using "1.IH"(2) [OF le Inr ne full _ _ m] "1.prems"(2) by blast
      qed
    qed
  qed
qed

lemma extract_info_Some:
  "extract_product_info c = Some p \<Longrightarrow>
     card_valid c \<and> title p = strip (title_text c) \<and> listing_only p"
proof -
  assume "extract_product_info c = Some p"
  then have "extract_product_try c = Inr (Some p)"
    by (auto simp: extract_product_info_def split: sum.splits)
  then show ?thesis using extract_try_Some [of c p] by (simp add: listing_only_def)
qed

lemma extract_info_blank:
  "q_title c = Found t \<Longrightarrow> strip t = [] \<Longrightarrow> extract_product_info c = None"
proof -
  assume a: "q_title c = Found t" "strip t = []"
  then have "\<not> card_valid c" by (simp add: card_valid_def title_text_def)
  then show ?thesis using extract_info_Some_iff [of c] by (cases "extract_product_info c") auto
qed

lemma per_page_Inr:
  "scrape_products_per_page url pg = Inr ps \<Longrightarrow>
     ps = List.map_filter extract_product_info (lp_articles pg)"
  by (auto simp: scrape_products_per_page_def Let_def extract_all_acc split: option.splits)

lemma map_filter_member:
  "p \<in> set (List.map_filter f xs) \<Longrightarrow> \<exists>x \<in> set xs. f x = Some p"
  by (auto simp: List.map_filter_def)

subsection \<open>Evaluation on the sample inputs\<close>

lemmas text_defs = strip_def isspace_def whitespace_def startswith_def
lemmas listing_defs = extract_product_info_def extract_product_try_def listing_price_def
  listing_location_date_def listing_url_def listing_Product_def

lemma extract_card_phone: "extract_product_info card_phone = Some product_phone"
  by (simp add: card_phone_def product_phone_def listing_defs text_defs)

lemma extract_card_blank: "extract_product_info card_blank = None"
  by (simp add: card_blank_def listing_defs text_defs)

lemma extract_card_untitled: "extract_product_info card_untitled = Some product_untitled"
  by (simp add: card_untitled_def product_untitled_def listing_defs text_defs)

lemma extract_card_broken: "extract_product_info card_broken = None"
  by (simp add: card_broken_def listing_defs text_defs)

lemma per_page_sample:
  "scrape_products_per_page u (page_of [card_phone, card_blank, card_untitled, card_broken]) =
     Inr [product_phone, product_untitled]"
  by (simp add: scrape_products_per_page_def page_of_def extract_card_phone extract_card_blank
        extract_card_untitled extract_card_broken)


subsection \<open>Pages and searches\<close>

lemma per_page_listing_only:
  assumes r: "scrape_products_per_page url pg = Inr ps" and m: "p \<in> set ps"
  shows "listing_only p"
proof -
  from r have "ps = List.map_filter extract_product_info (lp_articles pg)"
    by (rule per_page_Inr)
  with m obtain c where "extract_product_info c = Some p"
    using map_filter_member [of p extract_product_info "lp_articles pg"] by auto
  then show ?thesis using extract_info_Some [of c p] by simp
qed

lemma scrape_products_snd:
  "d_products (snd (scrape_products web query category subcategory city condition min_price
      max_price max_pages)) =
   snd (scrape_loop (page_result web query category subcategory city condition min_price max_price)
          max_pages 1 [] [])"
  by (simp add: scrape_products_def Let_def page_result_def [abs_def])

lemma scrape_products_eq:
  "scrape_loop (page_result web query category subcategory city condition min_price max_price)
     max_pages 1 [] [] = (vis, ps) \<Longrightarrow>
   scrape_products web query category subcategory city condition min_price max_price max_pages =
     (map (page_url query category subcategory city condition min_price max_price) vis,
      \<lparr>d_success = True, d_total_products = int (length ps), d_products = ps\<rparr>)"
  by (simp add: scrape_products_def Let_def page_result_def [abs_def])

subsection \<open>Evaluation of the sample searches\<close>

lemma map_filter_replicate:
  "f c = Some p \<Longrightarrow> List.map_filter f (replicate n c) = replicate n p"
  by (induction n) (simp_all add: List.map_filter_simps)

lemma per_page_replicate:
  "scrape_products_per_page u (page_of (replicate n card_phone)) = Inr (replicate n product_phone)"
  by (simp add: scrape_products_per_page_def page_of_def extract_all_acc
        map_filter_replicate [where f = extract_product_info, OF extract_card_phone])

lemma quote_Phones: "quote ''Phones'' = ''Phones''"
  by (simp add: quote_def quote_char_def always_safe_def)

lemma quote_iPhone: "quote ''iPhone'' = ''iPhone''"
  by (simp add: quote_def quote_char_def always_safe_def)

lemma str_int_123: "str_int 1 = ''1''" "str_int 2 = ''2''" "str_int 3 = ''3''"
  by (simp_all add: str_int_def digits.simps digit_char_def)

lemma sample_page_url:
  "i \<noteq> 0 \<Longrightarrow> page_url ''iPhone'' ''Phones'' None None None None None i =
     ''https://www.tayara.tn/ads/c/Phones/k/iPhone/?page='' @ str_int i"
  by (simp add: page_url_def build_url_def BASE_URL_def quote_Phones quote_iPhone)

lemma sample_urls:
  "page_url ''iPhone'' ''Phones'' None None None None None 1 =
     ''https://www.tayara.tn/ads/c/Phones/k/iPhone/?page=1''"
  "page_url ''iPhone'' ''Phones'' None None None None None 2 =
     ''https://www.tayara.tn/ads/c/Phones/k/iPhone/?page=2''"
  "page_url ''iPhone'' ''Phones'' None None None None None 3 =
     ''https://www.tayara.tn/ads/c/Phones/k/iPhone/?page=3''"
  by (simp_all add: sample_page_url str_int_123)

lemma three_pages_results:
  "page_result site_three_pages ''iPhone'' ''Phones'' None None None None None 1 =
     Inr (replicate 30 product_phone)"
  "page_result site_three_pages ''iPhone'' ''Phones'' None None None None None 2 =
     Inr (replicate 30 product_phone)"
  "page_result site_three_pages ''iPhone'' ''Phones'' None None None None None 3 =
     Inr (replicate 12 product_phone)"
  by (simp_all add: page_result_def sample_urls site_three_pages_def per_page_replicate)

lemma no_results_page:
  "page_result site_no_results query category subcategory city condition min_price max_price i =
     Inr []"
  by (simp add: page_result_def site_no_results_def page_of_def scrape_products_per_page_def
        extract_card_blank)

lemma upto_1_3: "[1..3] = [1, 2, 3::int]" "[1..2] = [1, 2::int]" "[1..1] = [1::int]"
  by (simp_all add: upto_rec1)

lemma three_pages_continue:
  "1 \<le> i \<Longrightarrow> i < 3 \<Longrightarrow>
     continues (page_result site_three_pages ''iPhone'' ''Phones'' None None None None None i)"
proof -
  assume "1 \<le> i" "i < 3"
  then have "i = 1 \<or> i = 2" by arith
  then show ?thesis by (auto simp: three_pages_results)
qed

lemma replicate_sums:
  "replicate 30 x @ replicate 30 x @ replicate 12 x = replicate 72 x"
  "replicate 30 x @ replicate 30 x = replicate 60 x"
  by (simp_all flip: replicate_add)

lemma three_pages_scrape:
  "scrape_products site_three_pages ''iPhone'' ''Phones'' None None None None None 3 =
     ([''https://www.tayara.tn/ads/c/Phones/k/iPhone/?page=1'',
       ''https://www.tayara.tn/ads/c/Phones/k/iPhone/?page=2'',
       ''https://www.tayara.tn/ads/c/Phones/k/iPhone/?page=3''],
      \<lparr>d_success = True, d_total_products = 72, d_products = replicate 72 product_phone\<rparr>)"
proof -
  have "scrape_loop (page_result site_three_pages ''iPhone'' ''Phones'' None None None None None)
          3 1 [] [] =
        ([1..3], concat (map (\<lambda>i. got (page_result site_three_pages ''iPhone'' ''Phones'' None
            None None None None i)) [1..3]))"
    by (rule scrape_loop_stops_short [where ps = "replicate 12 product_phone"])
      (simp_all add: three_pages_continue three_pages_results)
  then show ?thesis
    by (simp add: scrape_products_eq three_pages_results upto_1_3 sample_urls replicate_sums)
qed


lemma three_pages_search:
  "search_products site_three_pages ''iPhone'' ''Phones'' None None None None None 3 =
     ([''https://www.tayara.tn/ads/c/Phones/k/iPhone/?page=1'',
       ''https://www.tayara.tn/ads/c/Phones/k/iPhone/?page=2'',
       ''https://www.tayara.tn/ads/c/Phones/k/iPhone/?page=3''],
      Inr \<lparr>success = True, error = None, total_products = 72,
           products = replicate 72 product_phone\<rparr>)"
  by (simp add: search_products_def search_products_with_def search_try_def TayaraScraper_def
        three_pages_scrape)


subsection \<open>The URL Builder\<close>

lemma if_snoc: "(if b then xs @ ys else xs) = xs @ (if b then ys else [])"
  by simp

lemma case_snoc:
  "(case v of Some n \<Rightarrow> xs @ f n | None \<Rightarrow> xs) = xs @ (case v of Some n \<Rightarrow> f n | None \<Rightarrow> [])"
  by (cases v) simp_all

lemma build_url_path:
  "build_url query category subcategory city condition min_price max_price page =
     BASE_URL @ ''/'' @ join ''/'' (spec_segments query category subcategory city condition) @ ''/'' @
     (if spec_params min_price max_price page = [] then []
      else ''?'' @ join ''&'' (spec_params min_price max_price page))"
proof -
  have s: "(let path_segments = [];
          path_segments = (if category \<noteq> [] then path_segments @ [''c/'' @ quote category]
                           else path_segments);
          path_segments = (if truthy subcategory then path_segments @ [quote (the subcategory)]
                           else path_segments);
          path_segments = (if truthy city then path_segments @ [''l/'' @ quote (the city)]
                           else path_segments);
          path_segments = (if truthy condition then path_segments @ [''t/'' @ quote (the condition)]
                           else path_segments);
          path_segments = (if query \<noteq> [] then path_segments @ [''k/'' @ quote query]
                           else path_segments)
      in f path_segments) = f (spec_segments query category subcategory city condition)" for f
    unfolding Let_def if_snoc by (simp add: spec_segments_def segment_def)
  have p: "(let params = [];
          params = (case min_price of Some lo \<Rightarrow> params @ [''minPrice='' @ str_int lo]
                    | None \<Rightarrow> params);
          params = (case max_price of Some hi \<Rightarrow> params @ [''maxPrice='' @ str_int hi]
                    | None \<Rightarrow> params);
          params = (case page of
                      Some n \<Rightarrow> if n \<noteq> 0 then params @ [''page='' @ str_int n] else params
                    | None \<Rightarrow> params)
      in g params) = g (spec_params min_price max_price page)" for g
    by (cases min_price; cases max_price; cases page) (simp_all add: spec_params_def param_def)
  show ?thesis
    unfolding build_url_def s p by (simp add: Let_def)
qed

lemma join_slash:
  "segs \<noteq> [] \<Longrightarrow> ''/'' @ join ''/'' segs = concat (map (\<lambda>s. ''/'' @ s) segs)"
proof (induction segs)
  case Nil
  then show ?case by simp
next
  case (Cons x xs)
  then show ?case by (cases xs) simp_all
qed

lemma hex_digit_safe: "d < 16 \<Longrightarrow> hex_digit d \<in> set always_safe"
proof -
  assume "d < 16"
  then have "d = 0 \<or> d = 1 \<or> d = 2 \<or> d = 3 \<or> d = 4 \<or> d = 5 \<or> d = 6 \<or> d = 7 \<or> d = 8 \<or>
             d = 9 \<or> d = 10 \<or> d = 11 \<or> d = 12 \<or> d = 13 \<or> d = 14 \<or> d = 15"
    by presburger
  then show ?thesis
    by (elim disjE) (simp_all add: hex_digit_def always_safe_def)
qed

lemma utf8_bytes: "b \<in> set (utf8 c) \<Longrightarrow> b < 256"
proof -
  have n: "(of_char c :: nat) < 256" by simp
  then have "(of_char c :: nat) div 64 < 4" by arith
  moreover have "(of_char c :: nat) mod 64 < 64" by simp
  moreover assume "b \<in> set (utf8 c)"
  ultimately show ?thesis
    using n by (auto simp: utf8_def Let_def split: if_splits)
qed

lemma percent_chars: "b < 256 \<Longrightarrow> set (percent b) \<subseteq> insert CHR ''%'' (set always_safe)"
proof -
  assume "b < 256"
  then have "b div 16 < 16" by arith
  moreover have "b mod 16 < 16" by simp
  ultimately show ?thesis by (simp add: percent_def hex_digit_safe)
qed

lemma quote_char_chars:
  "set (quote_char c) \<subseteq> insert CHR ''%'' (insert CHR ''/'' (set always_safe))"
proof (cases "c \<in> set always_safe \<or> c = CHR ''/''")
  case True
  then show ?thesis by (auto simp: quote_char_def)
next
  case False
  have "set (percent b) \<subseteq> insert CHR ''%'' (insert CHR ''/'' (set always_safe))"
    if "b \<in> set (utf8 c)" for b
    using percent_chars [OF utf8_bytes [OF that]] by auto
  with False show ?thesis by (auto simp: quote_char_def)
qed

lemma quote_chars: "set (quote s) \<subseteq> insert CHR ''%'' (insert CHR ''/'' (set always_safe))"
  using quote_char_chars by (auto simp: quote_def)

lemma quote_samples:
  "quote ''Informatique et Multimedias'' = ''Informatique%20et%20Multimedias''"
  "quote ''Neuf'' = ''Neuf''"
  "quote ''Samsung S20'' = ''Samsung%20S20''"
  by (simp_all add: quote_def quote_char_def always_safe_def utf8_def percent_def hex_digit_def)

lemma str_int_10: "str_int 10 = ''10''"
  by (simp add: str_int_def digits.simps digit_char_def)


subsection \<open>Detail pages and endpoints\<close>

lemmas detail_defs = get_product_page_info_def detail_fields_def detail_title_def
  detail_seller_def detail_price_description_def detail_description_def
  detail_location_date_def detail_delivery_def detail_contact_def contact_try_def
  detail_image_def read_description_def

lemma lower_Oui: "lower ''Oui'' = ''oui''"
  by code_simp

lemma detail_sample_ok: "get_product_page_info url detail_sample = Inr (product_sample url)"
  by (simp add: detail_sample_def product_sample_def detail_defs text_defs lower_Oui)

lemma detail_timeout_fails:
  "get_product_page_info url detail_timeout =
     Inl (ValueError ''Failed to extract product info: Timeout 30000ms exceeded.'')"
  by (simp add: detail_timeout_def detail_sample_def get_product_page_info_def)

lemma page_info_raises:
  "get_product_page_info url pg = Inl e \<Longrightarrow> \<not> is_HTTPException e"
  by (auto simp: get_product_page_info_def Let_def split: option.splits sum.splits)

lemma scrape_search_response:
  "\<not> (min_price \<noteq> None \<and> max_price \<noteq> None \<and> the min_price > the max_price) \<Longrightarrow>
     search_products web query category subcategory city status min_price max_price max_pages =
       (fst (scrape_products web query category subcategory city status min_price max_price
               max_pages),
        Inr \<lparr>success = True, error = None,
             total_products = d_total_products (snd (scrape_products web query category
                subcategory city status min_price max_price max_pages)),
             products = d_products (snd (scrape_products web query category
                subcategory city status min_price max_price max_pages))\<rparr>)"
  by (cases min_price; cases max_price)
    (simp_all add: search_products_def search_products_with_def search_try_def
       TayaraScraper_def Let_def scrape_products_def)


subsection \<open>The contact of a detail page\<close>

lemma detail_parts_buttons:
  "detail_title (pg\<lparr>dp_buttons := x\<rparr>) = detail_title pg"
  "detail_seller (pg\<lparr>dp_buttons := x\<rparr>) = detail_seller pg"
  "detail_price_description (pg\<lparr>dp_buttons := x\<rparr>) = detail_price_description pg"
  "detail_location_date (pg\<lparr>dp_buttons := x\<rparr>) = detail_location_date pg"
  "detail_delivery (pg\<lparr>dp_buttons := x\<rparr>) = detail_delivery pg"
  "detail_image (pg\<lparr>dp_buttons := x\<rparr>) = detail_image pg"
  by (simp_all add: detail_title_def detail_seller_def detail_price_description_def
        detail_location_date_def detail_delivery_def detail_image_def
        cong: option.case_cong prod.case_cong)

lemma contact_raise_as_no_button:
  assumes "contact_try pg = Inl e"
  shows "get_product_page_info url pg = get_product_page_info url (pg\<lparr>dp_buttons := Inr []\<rparr>)"
proof -
  have "fst (detail_contact (pg\<lparr>dp_buttons := Inr []\<rparr>)) = fst (detail_contact pg)"
    using assms by (simp add: detail_contact_def contact_try_def)
  then have "detail_fields url (pg\<lparr>dp_buttons := Inr []\<rparr>) = detail_fields url pg"
    unfolding detail_fields_def detail_parts_buttons by simp
  then show ?thesis
    by (simp add: get_product_page_info_def Let_def cong: option.case_cong)
qed

lemma and_then_Inr_fields:
  "and_then m f = Inr y \<Longrightarrow> \<exists>x. m = Inr x \<and> f x = Inr y"
  by (simp add: and_then_Inr)

lemma detail_fields_contact_value:
  assumes "detail_fields url pg = Inr p"
  shows "seller_contact p = fst (detail_contact pg)"
proof -
  from assms obtain t seller pd ld is_delivery contact img d where
    "contact = fst (detail_contact pg)"
    "p = \<lparr>title = t, price = fst pd, location = fst ld, date_posted = snd ld,
            image_url = img, product_url = url, description = Some d,
            seller_name = seller, seller_contact = contact,
            is_delivery_available = Some is_delivery\<rparr>"
    unfolding detail_fields_def and_then_Inr by auto
  then show ?thesis by simp
qed

lemma page_info_contact_value:
  assumes "get_product_page_info url pg = Inr p"
  shows "seller_contact p = fst (detail_contact pg)"
proof -
  from assms have "detail_fields url pg = Inr p"
    by (auto simp: get_product_page_info_def Let_def split: option.splits sum.splits)
  then show ?thesis by (rule detail_fields_contact_value)
qed

lemma detail_one_button_ok:
  "get_product_page_info url detail_one_button = Inr ((product_sample url)\<lparr>seller_contact := None\<rparr>)"
  by (simp add: detail_one_button_def detail_sample_def product_sample_def detail_defs text_defs
        lower_Oui)


subsection \<open>The description and the location of a detail page\<close>

text \<open>
  The text before the marker: the marker follows it, and occurs at no earlier place. An
  extraction that succeeds found both the \<open>data\<close> element and the description paragraph,
  and a comma in a location text that is not empty; without them it fails.
\<close>

lemma before_marker_split:
  "before_marker m s = Some g \<Longrightarrow> \<exists>r. s = g @ m @ r"
proof (induction s arbitrary: g)
  case Nil
  then show ?case by (simp split: if_splits)
next
  case (Cons c cs)
  show ?case
  proof (cases "startswith (c # cs) m")
    case True
    with Cons.prems have "g = []" by simp
    moreover from True have "c # cs = m @ drop (length m) (c # cs)"
      unfolding startswith_def by (metis append_take_drop_id)
    ultimately show ?thesis by auto
  next
    case False
    with Cons.prems obtain g' where g': "before_marker m cs = Some g'" "g = c # g'"
      by auto
    from Cons.IH [OF g'(1)] obtain r where "cs = g' @ m @ r" by blast
    with g'(2) show ?thesis by auto
  qed
qed

lemma before_marker_first:
  "before_marker m s = Some g \<Longrightarrow> n < length g \<Longrightarrow> \<not> startswith (drop n s) m"
proof (induction s arbitrary: g n)
  case Nil
  then show ?case by (simp split: if_splits)
next
  case (Cons c cs)
  show ?case
  proof (cases "startswith (c # cs) m")
    case True
    with Cons.prems show ?thesis by simp
  next
    case False
    with Cons.prems obtain g' where g': "before_marker m cs = Some g'" "g = c # g'"
      by auto
    show ?thesis
    proof (cases n)
      case 0
      with False show ?thesis by simp
    next
      case (Suc k)
      with Cons.prems(2) g'(2) have "k < length g'" by simp
      from Cons.IH [OF g'(1) this] Suc show ?thesis by simp
    qed
  qed
qed

lemma before_marker_None:
  "before_marker m s = None \<Longrightarrow> \<not> startswith (drop n s) m"
proof (induction s arbitrary: n)
  case Nil
  then show ?case by (auto simp: startswith_def split: if_splits)
next
  case (Cons c cs)
  then have a: "\<not> startswith (c # cs) m" and b: "before_marker m cs = None"
    by (auto split: if_splits)
  show ?case
  proof (cases n)
    case 0
    with a show ?thesis by simp
  next
    case (Suc k)
    with Cons.IH [OF b, of k] show ?thesis by simp
  qed
qed

lemma detail_fields_description:
  assumes "detail_fields url pg = Inr p"
  shows "\<exists>price_value price_text full_text.
           dp_data pg = Found (price_value, price_text) \<and>
           dp_description pg = Found full_text \<and>
           description p = Some (detail_description full_text)"
proof -
  from assms obtain pd d where
      pd: "detail_price_description pg = Inr pd" and rd: "read_description (snd pd) = Inr d"
      and "description p = Some d"
    unfolding detail_fields_def and_then_Inr by auto
  from rd have b: "snd pd = Bound d"
    by (cases "snd pd") (simp_all add: read_description_def)
  from pd b have "\<exists>price_value price_text full_text.
           dp_data pg = Found (price_value, price_text) \<and>
           dp_description pg = Found full_text \<and> d = detail_description full_text"
    unfolding detail_price_description_def and_then_Inr lookup_result_Inr
    by (cases "dp_data pg"; cases "dp_description pg")
      (auto split: option.splits prod.splits if_splits sum.splits)
  with \<open>description p = Some d\<close> show ?thesis by auto
qed

lemma detail_fields_location:
  assumes "detail_fields url pg = Inr p" and "dp_location pg = Found text" and "text \<noteq> []"
  shows "\<exists>p0 p1 ps. split_on CHR '','' text = p0 # p1 # ps \<and>
           location p = Some (strip p0) \<and> date_posted p = Some (strip p1)"
proof -
  from assms(1) obtain ld where
      ld: "detail_location_date pg = Inr ld" and "location p = fst ld" "date_posted p = snd ld"
    unfolding detail_fields_def and_then_Inr by auto
  from ld assms(2,3) have "\<exists>p0 p1 ps. split_on CHR '','' text = p0 # p1 # ps \<and>
      ld = (Some (strip p0), Some (strip p1))"
    by (auto simp: detail_location_date_def split: list.splits)
  with \<open>location p = fst ld\<close> \<open>date_posted p = snd ld\<close> show ?thesis by auto
qed

lemma split_on_length: "length (split_on sep s) = Suc (length (filter (\<lambda>c. c = sep) s))"
  by (induction s) (auto split: list.splits)

lemma page_info_fields:
  "get_product_page_info url pg = Inr p \<Longrightarrow> detail_fields url pg = Inr p"
  by (auto simp: get_product_page_info_def Let_def split: option.splits sum.splits)


lemma missing_price_or_paragraph_fails:
  assumes "dp_data pg = Missing \<or> dp_description pg = Missing"
  shows "\<exists>e. get_product_page_info url pg = Inl e"
proof (cases "get_product_page_info url pg")
  case (Inl e)
  then show ?thesis by blast
next
  case (Inr p)
  then have "detail_fields url pg = Inr p" by (rule page_info_fields)
  from detail_fields_description [OF this] assms show ?thesis by auto
qed

lemma location_without_comma_fails:
  assumes "dp_location pg = Found text" and "text \<noteq> []" and "CHR '','' \<notin> set text"
  shows "\<exists>e. get_product_page_info url pg = Inl e"
proof (cases "get_product_page_info url pg")
  case (Inl e)
  then show ?thesis by blast
next
  case (Inr p)
  then have "detail_fields url pg = Inr p" by (rule page_info_fields)
  from detail_fields_location [OF this assms(1,2)]
  have "2 \<le> length (split_on CHR '','' text)" by auto
  moreover from assms(3) have "filter (\<lambda>c. c = CHR '','') text = []"
    by (auto simp: filter_empty_conv)
  ultimately show ?thesis by (simp add: split_on_length)
qed


subsection \<open>The search endpoint over a scraper\<close>

lemma search_with_raise:
  assumes "\<not> (min_price \<noteq> None \<and> max_price \<noteq> None \<and> the min_price > the max_price)"
    and "scraper query category subcategory city status min_price max_price max_pages =
           (urls, Inl e)"
  shows "search_products_with scraper query category subcategory city status min_price max_price
           max_pages = (urls, search_except e)"
  using assms
  by (cases min_price; cases max_price)
    (simp_all add: search_products_with_def search_try_def)

lemma search_with_result:
  assumes "\<not> (min_price \<noteq> None \<and> max_price \<noteq> None \<and> the min_price > the max_price)"
    and "scraper query category subcategory city status min_price max_price max_pages =
           (urls, Inr result)"
  shows "search_products_with scraper query category subcategory city status min_price max_price
           max_pages =
         (urls, Inr \<lparr>success = d_success result, error = None,
                      total_products = d_total_products result,
                      products = d_products result\<rparr>)"
  using assms
  by (cases min_price; cases max_price)
    (simp_all add: search_products_with_def search_try_def)

lemma search_with_bad_range:
  "lo > hi \<Longrightarrow>
     search_products_with scraper query category subcategory city status (Some lo) (Some hi)
       max_pages =
     ([], Inl (HTTPException 400 ''min_price cannot be greater than max_price''))"
  by (simp add: search_products_with_def search_try_def search_except_def)

lemma three_pages_scraper:
  "TayaraScraper site_three_pages ''iPhone'' ''Phones'' None None None (Some 1000) (Some 5000) 3 =
     (fst (scrape_products site_three_pages ''iPhone'' ''Phones'' None None None (Some 1000)
             (Some 5000) 3),
      Inr (snd (scrape_products site_three_pages ''iPhone'' ''Phones'' None None None (Some 1000)
                  (Some 5000) 3)))"
  by (simp add: TayaraScraper_def Let_def)


section \<open>Properties\<close>

subsection \<open>Listing Extractor\<close>

text \<open>
  C1, as the code has it. A card yields a record only if its title text is not blank
  after trimming, and the record's title is the trimmed text; the title text is the inner
  text of the title element, or the placeholder \<open>No title\<close> when the card has no title
  element. A card whose title element has blank text yields no record (the function
  returns \<open>None\<close>, it never raises). A card without a title element that yields a record
  yields it under the title \<open>No title\<close>. A card yields a record exactly when none of its
  lookups raises, its title text is not blank and its link, if any, has an \<open>href\<close>; a page
  yields the records of these cards in document order, and so exactly as many records as
  it has such cards.
\<close>

theorem listing_title_rule:
  "(extract_product_info c1 = Some p1 \<longrightarrow>
      strip (title_text c1) \<noteq> [] \<and> title p1 = strip (title_text c1)) \<and>
   (q_title c2 = Found t \<and> strip t = [] \<longrightarrow> extract_product_info c2 = None) \<and>
   (q_title c3 = Missing \<and> extract_product_info c3 = Some p3 \<longrightarrow> title p3 = ''No title'') \<and>
   ((\<exists>p. extract_product_info c4 = Some p) \<longleftrightarrow> card_valid c4) \<and>
   (scrape_products_per_page url pg = Inr ps \<longrightarrow>
      ps = List.map_filter extract_product_info (lp_articles pg) \<and>
      length ps = length (filter card_valid (lp_articles pg)))"
proof (intro conjI impI)
  assume "extract_product_info c1 = Some p1"
  then have "card_valid c1" "title p1 = strip (title_text c1)"
    using extract_info_Some [of c1 p1] by simp_all
  then show "strip (title_text c1) \<noteq> []" "title p1 = strip (title_text c1)"
    by (simp_all add: card_valid_def)
next
  assume "q_title c2 = Found t \<and> strip t = []"
  then show "extract_product_info c2 = None" by (simp add: extract_info_blank)
next
  assume a: "q_title c3 = Missing \<and> extract_product_info c3 = Some p3"
  then have "title p3 = strip (title_text c3)" using extract_info_Some [of c3 p3] by simp
  with a show "title p3 = ''No title''"
    by (simp add: title_text_def strip_def isspace_def whitespace_def)
next
  show "(\<exists>p. extract_product_info c4 = Some p) \<longleftrightarrow> card_valid c4"
    by (rule extract_info_Some_iff)
next
  assume a: "scrape_products_per_page url pg = Inr ps"
  then show "ps = List.map_filter extract_product_info (lp_articles pg)"
    by (rule per_page_Inr)
  then show "length ps = length (filter card_valid (lp_articles pg))"
    by (simp add: length_map_filter_valid)
qed

text \<open>
  The claim says that a card without a title element yields no record: this card has
  none, and yields a record titled \<open>No title\<close>.
\<close>

theorem missing_title_counterexample:
  "q_title \<lparr>q_title = Missing, q_data = Missing, q_location = Missing, q_img = Missing,
            q_link = Found (Some ''/item/1'')\<rparr> = Missing \<and>
   extract_product_info
     \<lparr>q_title = Missing, q_data = Missing, q_location = Missing, q_img = Missing,
      q_link = Found (Some ''/item/1'')\<rparr> =
   Some \<lparr>title = ''No title'', price = None, location = None, date_posted = None,
         image_url = None, product_url = ''https://www.tayara.tn/item/1'',
         description = None, seller_name = None, seller_contact = None,
         is_delivery_available = Some False\<rparr>"
  by (simp add: extract_product_info_def extract_product_try_def listing_price_def
        listing_location_date_def listing_url_def listing_Product_def startswith_def
        strip_def isspace_def whitespace_def)

theorem listing_title_rule_witness:
  "extract_product_info card_phone = Some product_phone \<and>
   strip (title_text card_phone) \<noteq> [] \<and> title product_phone = strip (title_text card_phone) \<and>
   q_title card_blank = Found ''  '' \<and> strip ''  '' = [] \<and>
   extract_product_info card_blank = None \<and>
   q_title card_untitled = Missing \<and> extract_product_info card_untitled = Some product_untitled \<and>
   title product_untitled = ''No title'' \<and>
   card_valid card_phone \<and>
   scrape_products_per_page ''u'' (page_of [card_phone, card_blank, card_untitled, card_broken]) =
     Inr [product_phone, product_untitled] \<and>
   length [product_phone, product_untitled] =
     length (filter card_valid
       (lp_articles (page_of [card_phone, card_blank, card_untitled, card_broken])))"
proof -
  note r = listing_title_rule [of card_phone product_phone card_blank "''  ''" card_untitled
      product_untitled card_phone "''u''"
      "page_of [card_phone, card_blank, card_untitled, card_broken]"
      "[product_phone, product_untitled]"]
  have h1: "extract_product_info card_phone = Some product_phone"
    by (rule extract_card_phone)
  have h2: "q_title card_blank = Found ''  '' \<and> strip ''  '' = []"
    by (simp add: card_blank_def text_defs)
  have h3: "q_title card_untitled = Missing \<and>
            extract_product_info card_untitled = Some product_untitled"
    by (simp add: extract_card_untitled) (simp add: card_untitled_def)
  have h4: "scrape_products_per_page ''u''
              (page_of [card_phone, card_blank, card_untitled, card_broken]) =
            Inr [product_phone, product_untitled]"
    by (rule per_page_sample)
  from r h1 h2 h3 h4 show ?thesis by blast
qed

text \<open>
  C10. A record of the Listing Extractor has no description, no seller name and no
  seller contact, and its delivery flag is false: for the record of one card, for every
  record of a page, and for every record a search aggregates.
\<close>

theorem listing_records_have_no_detail_fields:
  "(extract_product_info c = Some p \<longrightarrow>
      description p = None \<and> seller_name p = None \<and> seller_contact p = None \<and>
      is_delivery_available p = Some False) \<and>
   (scrape_products_per_page url pg = Inr ps \<and> p' \<in> set ps \<longrightarrow> listing_only p') \<and>
   (p'' \<in> set (d_products (snd (scrape_products web query category subcategory city condition
                                  min_price max_price max_pages))) \<longrightarrow>
      listing_only p'')"
proof -
  have a: "extract_product_info c = Some p \<longrightarrow>
      description p = None \<and> seller_name p = None \<and> seller_contact p = None \<and>
      is_delivery_available p = Some False"
  proof
    assume "extract_product_info c = Some p"
    then have "listing_only p" using extract_info_Some [of c p] by simp
    then show "description p = None \<and> seller_name p = None \<and> seller_contact p = None \<and>
        is_delivery_available p = Some False"
      by (simp add: listing_only_def)
  qed
  have b: "scrape_products_per_page url pg = Inr ps \<and> p' \<in> set ps \<longrightarrow> listing_only p'"
    using per_page_listing_only [of url pg ps p'] by simp
  have c: "p'' \<in> set (d_products (snd (scrape_products web query category subcategory city
              condition min_price max_price max_pages))) \<longrightarrow> listing_only p''"
  proof
    assume "p'' \<in> set (d_products (snd (scrape_products web query category subcategory city
                                           condition min_price max_price max_pages)))"
    then have m: "p'' \<in> set (snd (scrape_loop
          (page_result web query category subcategory city condition min_price max_price)
          max_pages 1 [] []))"
      by (simp add: scrape_products_snd)
    show "listing_only p''"
    proof (rule scrape_loop_all [OF _ _ m])
      fix q :: Product assume "q \<in> set []"
      then show "listing_only q" by simp
    next
      fix i ps q
      assume "page_result web query category subcategory city condition min_price max_price i
                = Inr ps" and "q \<in> set ps"
      then show "listing_only q"
        unfolding page_result_def by (rule per_page_listing_only)
    qed
  qed
  from a b c show ?thesis by blast
qed

theorem listing_records_have_no_detail_fields_witness:
  "extract_product_info card_phone = Some product_phone \<and>
   description product_phone = None \<and> seller_name product_phone = None \<and>
   seller_contact product_phone = None \<and> is_delivery_available product_phone = Some False \<and>
   scrape_products_per_page ''u'' (page_of [card_phone, card_blank, card_untitled, card_broken]) =
     Inr [product_phone, product_untitled] \<and>
   product_untitled \<in> set [product_phone, product_untitled] \<and> listing_only product_untitled \<and>
   product_phone \<in> set (d_products (snd (scrape_products site_three_pages ''iPhone'' ''Phones''
      None None None None None 3))) \<and>
   listing_only product_phone"
proof -
  note r = listing_records_have_no_detail_fields [of card_phone product_phone "''u''"
      "page_of [card_phone, card_blank, card_untitled, card_broken]"
      "[product_phone, product_untitled]" product_untitled product_phone site_three_pages
      "''iPhone''" "''Phones''" None None None None None 3]
  have h1: "extract_product_info card_phone = Some product_phone"
    by (rule extract_card_phone)
  have h2: "scrape_products_per_page ''u''
              (page_of [card_phone, card_blank, card_untitled, card_broken]) =
            Inr [product_phone, product_untitled]"
    by (rule per_page_sample)
  have h3: "product_untitled \<in> set [product_phone, product_untitled]" by simp
  have h4: "product_phone \<in> set (d_products (snd (scrape_products site_three_pages ''iPhone''
      ''Phones'' None None None None None 3)))"
    by (simp add: three_pages_scrape)
  from r h1 h2 h3 h4 show ?thesis by blast
qed


subsection \<open>Pagination Controller\<close>

text \<open>
  C4. A run starts at page 1. When the pages before page \<open>k\<close> each let the loop continue
  (at least 30 products, or an error) and page \<open>k\<close>, within the maximum, returns fewer
  than 30 products (none is one case), the run stops after page \<open>k\<close>: it has requested the
  pages 1 to \<open>k\<close> in order and never raises, and the result is successful and holds the
  products of these pages in that order. When every page up to the maximum lets the loop
  continue, the run requests the pages 1 to the maximum and aggregates them all.
\<close>

theorem pagination_stops:
  "(1 \<le> k \<and> k \<le> max_pages \<and>
    (\<forall>i. 1 \<le> i \<and> i < k \<longrightarrow>
       continues (page_result web query category subcategory city condition min_price max_price i)) \<and>
    page_result web query category subcategory city condition min_price max_price k = Inr ps \<and>
    length ps < 30 \<longrightarrow>
      scrape_products web query category subcategory city condition min_price max_price max_pages =
        (map (page_url query category subcategory city condition min_price max_price) [1..k],
         \<lparr>d_success = True,
          d_total_products = int (length (concat (map (\<lambda>i. got (page_result web query category
              subcategory city condition min_price max_price i)) [1..k]))),
          d_products = concat (map (\<lambda>i. got (page_result web query category
              subcategory city condition min_price max_price i)) [1..k])\<rparr>)) \<and>
   (0 \<le> max_pages' \<and>
    (\<forall>i. 1 \<le> i \<and> i \<le> max_pages' \<longrightarrow>
       continues (page_result web' query' category' subcategory' city' condition' min_price'
                    max_price' i)) \<longrightarrow>
      scrape_products web' query' category' subcategory' city' condition' min_price' max_price'
          max_pages' =
        (map (page_url query' category' subcategory' city' condition' min_price' max_price')
           [1..max_pages'],
         \<lparr>d_success = True,
          d_total_products = int (length (concat (map (\<lambda>i. got (page_result web' query' category'
              subcategory' city' condition' min_price' max_price' i)) [1..max_pages']))),
          d_products = concat (map (\<lambda>i. got (page_result web' query' category'
              subcategory' city' condition' min_price' max_price' i)) [1..max_pages'])\<rparr>))"
proof (intro conjI impI)
  assume a: "1 \<le> k \<and> k \<le> max_pages \<and>
    (\<forall>i. 1 \<le> i \<and> i < k \<longrightarrow>
       continues (page_result web query category subcategory city condition min_price max_price i)) \<and>
    page_result web query category subcategory city condition min_price max_price k = Inr ps \<and>
    length ps < 30"
  then have "scrape_loop (page_result web query category subcategory city condition min_price
                 max_price) max_pages 1 [] [] =
             ([1..k], concat (map (\<lambda>i. got (page_result web query category subcategory city
                 condition min_price max_price i)) [1..k]))"
    by (intro scrape_loop_stops_short [where ps = ps]) auto
  then show "scrape_products web query category subcategory city condition min_price max_price
      max_pages =
        (map (page_url query category subcategory city condition min_price max_price) [1..k],
         \<lparr>d_success = True,
          d_total_products = int (length (concat (map (\<lambda>i. got (page_result web query category
              subcategory city condition min_price max_price i)) [1..k]))),
          d_products = concat (map (\<lambda>i. got (page_result web query category
              subcategory city condition min_price max_price i)) [1..k])\<rparr>)"
    by (rule scrape_products_eq)
next
  assume a: "0 \<le> max_pages' \<and>
    (\<forall>i. 1 \<le> i \<and> i \<le> max_pages' \<longrightarrow>
       continues (page_result web' query' category' subcategory' city' condition' min_price'
                    max_price' i))"
  then have "scrape_loop (page_result web' query' category' subcategory' city' condition'
                 min_price' max_price') max_pages' 1 [] [] =
             ([1..max_pages'], concat (map (\<lambda>i. got (page_result web' query' category'
                 subcategory' city' condition' min_price' max_price' i)) [1..max_pages']))"
    by (intro scrape_loop_to_max) auto
  then show "scrape_products web' query' category' subcategory' city' condition' min_price'
      max_price' max_pages' =
        (map (page_url query' category' subcategory' city' condition' min_price' max_price')
           [1..max_pages'],
         \<lparr>d_success = True,
          d_total_products = int (length (concat (map (\<lambda>i. got (page_result web' query' category'
              subcategory' city' condition' min_price' max_price' i)) [1..max_pages']))),
          d_products = concat (map (\<lambda>i. got (page_result web' query' category'
              subcategory' city' condition' min_price' max_price' i)) [1..max_pages'])\<rparr>)"
    by (rule scrape_products_eq)
qed

text \<open>
  Pages of 30, 30 and 12 products stop after page 3 with 72 products; with a maximum
  of 2 the same site stops after page 2 with 60; a first page of no product stops after
  page 1 with none.
\<close>

theorem pagination_stops_witness:
  "scrape_products site_three_pages ''iPhone'' ''Phones'' None None None None None 3 =
     ([''https://www.tayara.tn/ads/c/Phones/k/iPhone/?page=1'',
       ''https://www.tayara.tn/ads/c/Phones/k/iPhone/?page=2'',
       ''https://www.tayara.tn/ads/c/Phones/k/iPhone/?page=3''],
      \<lparr>d_success = True, d_total_products = 72, d_products = replicate 72 product_phone\<rparr>) \<and>
   scrape_products site_three_pages ''iPhone'' ''Phones'' None None None None None 2 =
     ([''https://www.tayara.tn/ads/c/Phones/k/iPhone/?page=1'',
       ''https://www.tayara.tn/ads/c/Phones/k/iPhone/?page=2''],
      \<lparr>d_success = True, d_total_products = 60, d_products = replicate 60 product_phone\<rparr>) \<and>
   scrape_products site_no_results ''iPhone'' ''Phones'' None None None None None 3 =
     ([''https://www.tayara.tn/ads/c/Phones/k/iPhone/?page=1''],
      \<lparr>d_success = True, d_total_products = 0, d_products = []\<rparr>)"
proof -
  have c: "\<forall>i. 1 \<le> i \<and> i < 3 \<longrightarrow>
             continues (page_result site_three_pages ''iPhone'' ''Phones'' None None None None None i)"
  proof (intro allI impI)
    fix i :: int assume "1 \<le> i \<and> i < 3"
    then have "i = 1 \<or> i = 2" by arith
    then show "continues (page_result site_three_pages ''iPhone'' ''Phones'' None None None None
                 None i)"
      by (auto simp: three_pages_results)
  qed
  have c2: "\<forall>i. 1 \<le> i \<and> i \<le> 2 \<longrightarrow>
             continues (page_result site_three_pages ''iPhone'' ''Phones'' None None None None None i)"
    using c by auto
  have r30: "replicate 30 product_phone @ replicate 30 product_phone @ replicate 12 product_phone
               = replicate 72 product_phone"
            "replicate 30 product_phone @ replicate 30 product_phone = replicate 60 product_phone"
    by (simp_all flip: replicate_add)
  note t1 = pagination_stops [of 3 3 site_three_pages "''iPhone''" "''Phones''" None None None None
      None "replicate 12 product_phone" 2 site_three_pages "''iPhone''" "''Phones''" None None None
      None None]
  note t2 = pagination_stops [of 1 3 site_no_results "''iPhone''" "''Phones''" None None None None
      None "[]" 2 site_three_pages "''iPhone''" "''Phones''" None None None None None]
  have a1: "scrape_products site_three_pages ''iPhone'' ''Phones'' None None None None None 3 =
     ([''https://www.tayara.tn/ads/c/Phones/k/iPhone/?page=1'',
       ''https://www.tayara.tn/ads/c/Phones/k/iPhone/?page=2'',
       ''https://www.tayara.tn/ads/c/Phones/k/iPhone/?page=3''],
      \<lparr>d_success = True, d_total_products = 72, d_products = replicate 72 product_phone\<rparr>)"
    using t1 c c2 by (simp add: three_pages_results upto_1_3 sample_urls r30)
  have a2: "scrape_products site_three_pages ''iPhone'' ''Phones'' None None None None None 2 =
     ([''https://www.tayara.tn/ads/c/Phones/k/iPhone/?page=1'',
       ''https://www.tayara.tn/ads/c/Phones/k/iPhone/?page=2''],
      \<lparr>d_success = True, d_total_products = 60, d_products = replicate 60 product_phone\<rparr>)"
    using t1 c c2 by (simp add: three_pages_results upto_1_3 sample_urls r30)
  have a3: "scrape_products site_no_results ''iPhone'' ''Phones'' None None None None None 3 =
     ([''https://www.tayara.tn/ads/c/Phones/k/iPhone/?page=1''],
      \<lparr>d_success = True, d_total_products = 0, d_products = []\<rparr>)"
    using t2 by (simp add: no_results_page upto_1_3 sample_urls)
  from a1 a2 a3 show ?thesis by simp
qed

text \<open>
  C9. The count a search reports is the length of its list of products, whatever the
  pages gave or raised; the same holds of every response of the search endpoint.
\<close>

theorem total_products_matches_products:
  "d_total_products (snd (scrape_products web query category subcategory city condition
                            min_price max_price max_pages)) =
   int (length (d_products (snd (scrape_products web query category subcategory city condition
                                   min_price max_price max_pages)))) \<and>
   d_success (snd (scrape_products web query category subcategory city condition
                     min_price max_price max_pages)) \<and>
   (snd (search_products web query category subcategory city condition min_price max_price
           max_pages) = Inr response \<longrightarrow>
      total_products response = int (length (products response)))"
  by (auto simp: scrape_products_def search_products_def search_products_with_def search_try_def
        TayaraScraper_def search_except_def Let_def
        split: sum.splits if_splits)

theorem total_products_matches_products_witness:
  "d_total_products (snd (scrape_products site_three_pages ''iPhone'' ''Phones'' None None None
                            None None 3)) =
   int (length (d_products (snd (scrape_products site_three_pages ''iPhone'' ''Phones'' None None
                                   None None None 3)))) \<and>
   snd (search_products site_three_pages ''iPhone'' ''Phones'' None None None None None 3) =
     Inr \<lparr>success = True, error = None, total_products = 72,
          products = replicate 72 product_phone\<rparr> \<and>
   total_products \<lparr>success = True, error = None, total_products = 72,
                   products = replicate 72 product_phone\<rparr> =
   int (length (products \<lparr>success = True, error = None, total_products = 72,
                           products = replicate 72 product_phone\<rparr>))"
proof -
  note r = total_products_matches_products [of site_three_pages "''iPhone''" "''Phones''" None
      None None None None 3
      "\<lparr>success = True, error = None, total_products = 72,
        products = replicate 72 product_phone\<rparr>"]
  have h: "snd (search_products site_three_pages ''iPhone'' ''Phones'' None None None None None 3)
             = Inr \<lparr>success = True, error = None, total_products = 72,
                    products = replicate 72 product_phone\<rparr>"
    by (simp add: three_pages_search)
  from r h show ?thesis by blast
qed

subsection \<open>URL Builder\<close>

text \<open>
  C5. The URL is the base, a slash, the segments of the fields that are present, in the
  fixed order and joined with slashes, a trailing slash, and then, when there is any
  parameter, a question mark and the parameters joined with \<open>&\<close>. With the category
  present, this is the base followed by each present segment after exactly one slash and
  the trailing slash: an absent field leaves no separator behind. An encoded value
  consists of unreserved characters, slashes and percent escapes only.
\<close>

theorem build_url_shape:
  "build_url query category subcategory city condition min_price max_price page =
     BASE_URL @ ''/'' @ join ''/'' (spec_segments query category subcategory city condition) @
     ''/'' @
     (if spec_params min_price max_price page = [] then []
      else ''?'' @ join ''&'' (spec_params min_price max_price page)) \<and>
   (category \<noteq> [] \<longrightarrow>
      build_url query category subcategory city condition min_price max_price page =
        BASE_URL @
        concat (map (\<lambda>s. ''/'' @ s) (spec_segments query category subcategory city condition)) @
        ''/'' @
        (if spec_params min_price max_price page = [] then []
         else ''?'' @ join ''&'' (spec_params min_price max_price page))) \<and>
   set (quote v) \<subseteq> insert CHR ''%'' (insert CHR ''/'' (set always_safe))"
proof -
  have "spec_segments query category subcategory city condition \<noteq> []" if "category \<noteq> []"
    using that by (simp add: spec_segments_def segment_def)
  then have "category \<noteq> [] \<longrightarrow>
      ''/'' @ join ''/'' (spec_segments query category subcategory city condition) =
      concat (map (\<lambda>s. ''/'' @ s) (spec_segments query category subcategory city condition))"
    using join_slash by blast
  then show ?thesis
    using quote_chars [of v]
    by (simp add: build_url_path [of query category subcategory city condition min_price
          max_price page] del: append_Cons)
qed

theorem build_url_shape_witness:
  "''Informatique et Multimedias'' \<noteq> [] \<and>
   build_url ''Samsung S20'' ''Informatique et Multimedias'' (Some ''Phones'') None (Some ''Neuf'')
     (Some 10) None (Some 2) =
   ''https://www.tayara.tn/ads/c/Informatique%20et%20Multimedias/Phones/t/Neuf/k/Samsung%20S20/?minPrice=10&page=2''"
  using build_url_shape [of "''Samsung S20''" "''Informatique et Multimedias''" "Some ''Phones''"
      None "Some ''Neuf''" "Some 10" None "Some 2" "''Neuf''"]
  by (simp add: spec_segments_def segment_def spec_params_def param_def BASE_URL_def
        quote_samples quote_Phones str_int_10 str_int_123)

subsection \<open>HTTP Facade\<close>

text \<open>
  C6. A URL that does not start with \<open>https://www.tayara.tn/\<close> is answered with the
  client error 400, and no browser is launched. When the URL is accepted and the detail
  extraction raises, whatever the exception, the endpoint returns a response rather than
  an error: \<open>success\<close> is false, the error text is that of the exception, and the product is
  the placeholder, whose title is \<open>Error\<close> and whose URL is the input.
\<close>

theorem product_endpoint_errors:
  "(\<not> startswith url ''https://www.tayara.tn/'' \<longrightarrow>
      get_product_info web url =
        ([], Inl (HTTPException 400 ''URL must be a valid Tayara.tn product URL''))) \<and>
   (startswith url' ''https://www.tayara.tn/'' \<and>
    get_product_page_info url' (web' url') = Inl e \<longrightarrow>
      get_product_info web' url' =
        ([url'],
         Inr \<lparr>success = False, error = Some (str_exn e), product = error_Product url'\<rparr>)) \<and>
   title (error_Product u) = ''Error'' \<and> product_url (error_Product u) = u"
proof -
  have a: "\<not> startswith url ''https://www.tayara.tn/'' \<longrightarrow>
      get_product_info web url =
        ([], Inl (HTTPException 400 ''URL must be a valid Tayara.tn product URL''))"
    by (simp add: get_product_info_def product_try_def product_except_def)
  have b: "startswith url' ''https://www.tayara.tn/'' \<and>
    get_product_page_info url' (web' url') = Inl e \<longrightarrow>
      get_product_info web' url' =
        ([url'],
         Inr \<lparr>success = False, error = Some (str_exn e), product = error_Product url'\<rparr>)"
  proof
    assume h: "startswith url' ''https://www.tayara.tn/'' \<and>
      get_product_page_info url' (web' url') = Inl e"
    then have "\<not> is_HTTPException e" using page_info_raises [of url' "web' url'" e] by simp
    with h show "get_product_info web' url' =
        ([url'],
         Inr \<lparr>success = False, error = Some (str_exn e), product = error_Product url'\<rparr>)"
      by (simp add: get_product_info_def product_try_def product_except_def)
  qed
  have c: "title (error_Product u) = ''Error'' \<and> product_url (error_Product u) = u"
    by (simp add: error_Product_def)
  from a b c show ?thesis by blast
qed

theorem product_endpoint_errors_witness:
  "\<not> startswith ''http://example.com/item/1'' ''https://www.tayara.tn/'' \<and>
   get_product_info (\<lambda>u. detail_sample) ''http://example.com/item/1'' =
     ([], Inl (HTTPException 400 ''URL must be a valid Tayara.tn product URL'')) \<and>
   startswith ''https://www.tayara.tn/item/1'' ''https://www.tayara.tn/'' \<and>
   get_product_page_info ''https://www.tayara.tn/item/1'' detail_timeout =
     Inl (ValueError ''Failed to extract product info: Timeout 30000ms exceeded.'') \<and>
   get_product_info (\<lambda>u. detail_timeout) ''https://www.tayara.tn/item/1'' =
     ([''https://www.tayara.tn/item/1''],
      Inr \<lparr>success = False,
           error = Some ''Failed to extract product info: Timeout 30000ms exceeded.'',
           product = error_Product ''https://www.tayara.tn/item/1''\<rparr>)"
  using product_endpoint_errors [where url = "''http://example.com/item/1''"
      and web = "\<lambda>u. detail_sample" and url' = "''https://www.tayara.tn/item/1''"
      and web' = "\<lambda>u. detail_timeout"
      and e = "ValueError ''Failed to extract product info: Timeout 30000ms exceeded.''"
      and u = "''x''"]
    detail_timeout_fails [of "''https://www.tayara.tn/item/1''"]
  by (simp add: startswith_def)

text \<open>
  C7. With both prices given and the minimum above the maximum, the search endpoint
  answers with the client error 400, and no page is requested: whatever the scraper, it
  is not called. With an acceptable price range the endpoint of the module always returns
  a response: the pagination loop lets no exception through. For any scraper, an exception
  that escapes its call is not propagated: the endpoint returns the failure response, with
  \<open>success\<close> false, the error text, no product and the count 0; the one exception the
  endpoint lets through is the client error of the framework, which no scraper code
  raises. When the call returns, the response carries what it returned.
\<close>

theorem search_endpoint_errors:
  "(lo > hi \<longrightarrow>
      search_products web query category subcategory city status (Some lo) (Some hi) max_pages =
        ([], Inl (HTTPException 400 ''min_price cannot be greater than max_price''))) \<and>
   (\<not> (min_price \<noteq> None \<and> max_price \<noteq> None \<and> the min_price > the max_price) \<longrightarrow>
      (\<exists>response.
         snd (search_products web' query' category' subcategory' city' status' min_price
                max_price max_pages') = Inr response \<and> success response)) \<and>
   (\<not> is_HTTPException e \<longrightarrow>
      search_except e =
        Inr \<lparr>success = False, error = Some (str_exn e), total_products = 0, products = []\<rparr>) \<and>
   (lo > hi \<longrightarrow>
      search_products_with scraper query category subcategory city status (Some lo) (Some hi)
        max_pages =
        ([], Inl (HTTPException 400 ''min_price cannot be greater than max_price''))) \<and>
   (\<not> (min_price \<noteq> None \<and> max_price \<noteq> None \<and> the min_price > the max_price) \<and>
    raising query' category' subcategory' city' status' min_price max_price max_pages' =
      (urls, Inl e) \<and>
    \<not> is_HTTPException e \<longrightarrow>
      search_products_with raising query' category' subcategory' city' status' min_price
        max_price max_pages' =
        (urls,
         Inr \<lparr>success = False, error = Some (str_exn e), total_products = 0, products = []\<rparr>)) \<and>
   (\<not> (min_price \<noteq> None \<and> max_price \<noteq> None \<and> the min_price > the max_price) \<and>
    returning query' category' subcategory' city' status' min_price max_price max_pages' =
      (pages, Inr result) \<longrightarrow>
      search_products_with returning query' category' subcategory' city' status' min_price
        max_price max_pages' =
        (pages,
         Inr \<lparr>success = d_success result, error = None,
              total_products = d_total_products result, products = d_products result\<rparr>))"
proof -
  have a: "lo > hi \<longrightarrow>
      search_products web query category subcategory city status (Some lo) (Some hi) max_pages =
        ([], Inl (HTTPException 400 ''min_price cannot be greater than max_price''))"
    by (simp add: search_products_def search_with_bad_range)
  have b: "\<not> (min_price \<noteq> None \<and> max_price \<noteq> None \<and> the min_price > the max_price) \<longrightarrow>
      (\<exists>response.
         snd (search_products web' query' category' subcategory' city' status' min_price
                max_price max_pages') = Inr response \<and> success response)"
    using scrape_search_response [of min_price max_price web' query' category' subcategory'
        city' status' max_pages']
    by auto
  have c: "\<not> is_HTTPException e \<longrightarrow>
      search_except e =
        Inr \<lparr>success = False, error = Some (str_exn e), total_products = 0, products = []\<rparr>"
    by (simp add: search_except_def)
  have d: "lo > hi \<longrightarrow>
      search_products_with scraper query category subcategory city status (Some lo) (Some hi)
        max_pages =
        ([], Inl (HTTPException 400 ''min_price cannot be greater than max_price''))"
    by (simp add: search_with_bad_range)
  have f: "\<not> (min_price \<noteq> None \<and> max_price \<noteq> None \<and> the min_price > the max_price) \<and>
    raising query' category' subcategory' city' status' min_price max_price max_pages' =
      (urls, Inl e) \<and>
    \<not> is_HTTPException e \<longrightarrow>
      search_products_with raising query' category' subcategory' city' status' min_price
        max_price max_pages' =
        (urls,
         Inr \<lparr>success = False, error = Some (str_exn e), total_products = 0, products = []\<rparr>)"
    using search_with_raise [of min_price max_price raising query' category' subcategory' city'
        status' max_pages' urls e]
    by (simp add: search_except_def)
  have g: "\<not> (min_price \<noteq> None \<and> max_price \<noteq> None \<and> the min_price > the max_price) \<and>
    returning query' category' subcategory' city' status' min_price max_price max_pages' =
      (pages, Inr result) \<longrightarrow>
      search_products_with returning query' category' subcategory' city' status' min_price
        max_price max_pages' =
        (pages,
         Inr \<lparr>success = d_success result, error = None,
              total_products = d_total_products result, products = d_products result\<rparr>)"
    using search_with_result [of min_price max_price returning query' category' subcategory'
        city' status' max_pages' pages result]
    by simp
  from a b c d f g show ?thesis by blast
qed

theorem search_endpoint_errors_witness:
  "(5000::int) > 1000 \<and>
   search_products site_three_pages ''iPhone'' ''Phones'' None None None (Some 5000) (Some 1000) 3 =
     ([], Inl (HTTPException 400 ''min_price cannot be greater than max_price'')) \<and>
   search_products_with failing_scraper ''iPhone'' ''Phones'' None None None (Some 5000)
       (Some 1000) 3 =
     ([], Inl (HTTPException 400 ''min_price cannot be greater than max_price'')) \<and>
   (\<exists>response.
      snd (search_products site_three_pages ''iPhone'' ''Phones'' None None None (Some 1000)
             (Some 5000) 3) = Inr response \<and> success response) \<and>
   failing_scraper ''iPhone'' ''Phones'' None None None (Some 1000) (Some 5000) 3 =
     ([], Inl (PlaywrightError ''Executable does not exist'')) \<and>
   \<not> is_HTTPException (PlaywrightError ''Executable does not exist'') \<and>
   search_products_with failing_scraper ''iPhone'' ''Phones'' None None None (Some 1000)
       (Some 5000) 3 =
     ([], Inr \<lparr>success = False, error = Some ''Executable does not exist'', total_products = 0,
               products = []\<rparr>) \<and>
   search_products_with (TayaraScraper site_three_pages) ''iPhone'' ''Phones'' None None None
       (Some 1000) (Some 5000) 3 =
     (fst (scrape_products site_three_pages ''iPhone'' ''Phones'' None None None (Some 1000)
             (Some 5000) 3),
      Inr \<lparr>success = True, error = None,
           total_products = d_total_products (snd (scrape_products site_three_pages ''iPhone''
              ''Phones'' None None None (Some 1000) (Some 5000) 3)),
           products = d_products (snd (scrape_products site_three_pages ''iPhone''
              ''Phones'' None None None (Some 1000) (Some 5000) 3))\<rparr>)"
proof -
  note r = search_endpoint_errors [where lo = 5000 and hi = 1000 and web = site_three_pages
      and query = "''iPhone''" and category = "''Phones''" and subcategory = None and city = None
      and status = None and max_pages = 3 and min_price = "Some 1000" and max_price = "Some 5000"
      and web' = site_three_pages and query' = "''iPhone''" and category' = "''Phones''"
      and subcategory' = None and city' = None and status' = None and max_pages' = 3
      and e = "PlaywrightError ''Executable does not exist''" and scraper = failing_scraper
      and raising = failing_scraper and urls = "[]"
      and returning = "TayaraScraper site_three_pages"
      and pages = "fst (scrape_products site_three_pages ''iPhone'' ''Phones'' None None None
                         (Some 1000) (Some 5000) 3)"
      and result = "snd (scrape_products site_three_pages ''iPhone'' ''Phones'' None None None
                           (Some 1000) (Some 5000) 3)"]
  have h1: "(5000::int) > 1000" by simp
  have h2: "\<not> (Some (1000::int) \<noteq> None \<and> Some (5000::int) \<noteq> None \<and>
               the (Some (1000::int)) > the (Some 5000))"
    by simp
  have h3: "failing_scraper ''iPhone'' ''Phones'' None None None (Some 1000) (Some 5000) 3 =
     ([], Inl (PlaywrightError ''Executable does not exist''))"
    by (simp add: failing_scraper_def)
  have h4: "\<not> is_HTTPException (PlaywrightError ''Executable does not exist'')" by simp
  note h5 = three_pages_scraper
  have s: "d_success (snd (scrape_products site_three_pages ''iPhone'' ''Phones'' None None None
                             (Some 1000) (Some 5000) 3))"
    by (simp add: scrape_products_def Let_def)
  from r h1 h2 h3 h4 h5 s show ?thesis by simp
qed


subsection \<open>Detail Extractor\<close>

text \<open>
  C8, as the code has it. When the reveal sequence raises, the exception is caught: the
  contact is absent, a warning with the text of the exception is logged, and the
  extraction gives what it gives for the same page without any reveal button, so the
  failure of the sequence never fails the extraction. A single reveal button makes the
  read of the second one raise, and a \<open>tel:\<close> link that does not appear in time raises
  too: both are such failures. An extraction that succeeds after such a failure returns
  a product without contact. When the second button is clicked and the link appears with
  a text, the product the extraction returns has as its contact that text without its
  first four characters and then trimmed of surrounding white space.
\<close>

theorem contact_failure_is_contained:
  "(contact_try pg = Inl e \<longrightarrow>
      detail_contact pg = (None, Some (''Could not extract contact info: '' @ str_exn e)) \<and>
      get_product_page_info url pg = get_product_page_info url (pg\<lparr>dp_buttons := Inr []\<rparr>)) \<and>
   (dp_buttons pga = Inr [b] \<longrightarrow>
      contact_try pga = Inl (IndexError ''list index out of range'')) \<and>
   (dp_buttons pgb = Inr (button_b # None # more_b) \<and> dp_tel pgb = Raises m \<longrightarrow>
      contact_try pgb = Inl (PlaywrightError m)) \<and>
   (get_product_page_info urlc pgc = Inr p \<and> contact_try pgc = Inl ec \<longrightarrow>
      seller_contact p = None) \<and>
   (dp_buttons pgd = Inr (button_d # None # more_d) \<and> dp_tel pgd = Found link_text \<and> link_text \<noteq> [] \<longrightarrow>
      fst (detail_contact pgd) = Some (strip (drop 4 link_text))) \<and>
   (get_product_page_info urlf pgf = Inr pf \<and>
    dp_buttons pgf = Inr (button_f # None # more_f) \<and> dp_tel pgf = Found text_f \<and>
    text_f \<noteq> [] \<longrightarrow>
      seller_contact pf = Some (strip (drop 4 text_f)))"
proof -
  have a: "contact_try pg = Inl e \<longrightarrow>
      detail_contact pg = (None, Some (''Could not extract contact info: '' @ str_exn e)) \<and>
      get_product_page_info url pg = get_product_page_info url (pg\<lparr>dp_buttons := Inr []\<rparr>)"
    using contact_raise_as_no_button [of pg e url] by (simp add: detail_contact_def)
  have b: "dp_buttons pga = Inr [b] \<longrightarrow>
      contact_try pga = Inl (IndexError ''list index out of range'')"
    by (simp add: contact_try_def)
  have c: "dp_buttons pgb = Inr (button_b # None # more_b) \<and> dp_tel pgb = Raises m \<longrightarrow>
      contact_try pgb = Inl (PlaywrightError m)"
    by (simp add: contact_try_def)
  have d: "get_product_page_info urlc pgc = Inr p \<and> contact_try pgc = Inl ec \<longrightarrow>
      seller_contact p = None"
    using page_info_contact_value [of urlc pgc p] by (simp add: detail_contact_def)
  have e: "dp_buttons pgd = Inr (button_d # None # more_d) \<and> dp_tel pgd = Found link_text \<and> link_text \<noteq> [] \<longrightarrow>
      fst (detail_contact pgd) = Some (strip (drop 4 link_text))"
    by (simp add: detail_contact_def contact_try_def)
  have f: "get_product_page_info urlf pgf = Inr pf \<and>
    dp_buttons pgf = Inr (button_f # None # more_f) \<and> dp_tel pgf = Found text_f \<and>
    text_f \<noteq> [] \<longrightarrow>
      seller_contact pf = Some (strip (drop 4 text_f))"
    using page_info_contact_value [of urlf pgf pf]
    by (simp add: detail_contact_def contact_try_def)
  from a b c d e f show ?thesis by blast
qed

text \<open>
  The claim says that the contact is the link text without its four-character prefix.
  On this page the link text is \<open>Tel: 12345678\<close>: without its first four characters it
  is \<open> 12345678\<close>, with a leading space, and the contact of the returned product is
  \<open>12345678\<close>.
\<close>

theorem contact_not_only_prefix_counterexample:
  "get_product_page_info ''https://www.tayara.tn/item/1''
     \<lparr>dp_launch = None, dp_load = None, dp_title = Found ''iPhone 12'',
      dp_seller = Found '' Ali '', dp_data = Found (Some ''1500'', Inr ''1500 DT''),
      dp_description = Found ''Great phone.  Tel: 12345678 extra'',
      dp_location = Found ''Tunis, 2 days ago'', dp_delivery = Found (Found ''Oui''),
      dp_buttons = Inr [None, None], dp_tel = Found ''Tel: 12345678'',
      dp_img = Found (Some ''p.jpg''), dp_close = None\<rparr> =
   Inr \<lparr>title = ''iPhone 12'', price = Some ''1500 DT'', location = Some ''Tunis'',
        date_posted = Some ''2 days ago'', image_url = Some ''p.jpg'',
        product_url = ''https://www.tayara.tn/item/1'',
        description = Some ''Great phone.'', seller_name = Some ''Ali'',
        seller_contact = Some ''12345678'', is_delivery_available = Some True\<rparr> \<and>
   drop 4 ''Tel: 12345678'' = '' 12345678'' \<and>
   Some ''12345678'' \<noteq> Some (drop 4 ''Tel: 12345678'')"
  by (simp add: detail_defs text_defs lower_Oui)

theorem contact_failure_is_contained_witness:
  "contact_try detail_one_button = Inl (IndexError ''list index out of range'') \<and>
   detail_contact detail_one_button =
     (None, Some ''Could not extract contact info: list index out of range'') \<and>
   get_product_page_info ''https://www.tayara.tn/item/1'' detail_one_button =
     Inr ((product_sample ''https://www.tayara.tn/item/1'')\<lparr>seller_contact := None\<rparr>) \<and>
   seller_contact ((product_sample ''https://www.tayara.tn/item/1'')\<lparr>seller_contact := None\<rparr>)
     = None \<and>
   dp_tel detail_tel_timeout = Raises ''Timeout 5000ms exceeded.'' \<and>
   contact_try detail_tel_timeout = Inl (PlaywrightError ''Timeout 5000ms exceeded.'') \<and>
   dp_tel detail_sample = Found ''Tel: 12345678'' \<and>
   fst (detail_contact detail_sample) = Some ''12345678'' \<and>
   get_product_page_info ''https://www.tayara.tn/item/1'' detail_sample =
     Inr (product_sample ''https://www.tayara.tn/item/1'') \<and>
   seller_contact (product_sample ''https://www.tayara.tn/item/1'') = Some ''12345678''"
proof -
  note r = contact_failure_is_contained [where pg = detail_one_button
      and e = "IndexError ''list index out of range''" and url = "''https://www.tayara.tn/item/1''"
      and pga = detail_one_button and b = None
      and pgb = detail_tel_timeout and button_b = None and more_b = "[]"
      and m = "''Timeout 5000ms exceeded.''"
      and urlc = "''https://www.tayara.tn/item/1''" and pgc = detail_one_button
      and p = "(product_sample ''https://www.tayara.tn/item/1'')\<lparr>seller_contact := None\<rparr>"
      and ec = "IndexError ''list index out of range''"
      and pgd = detail_sample and button_d = None and more_d = "[]" and link_text = "''Tel: 12345678''"
      and urlf = "''https://www.tayara.tn/item/1''" and pgf = detail_sample
      and pf = "product_sample ''https://www.tayara.tn/item/1''"
      and button_f = None and more_f = "[]" and text_f = "''Tel: 12345678''"]
  have h1: "dp_buttons detail_one_button = Inr [None]"
    by (simp add: detail_one_button_def)
  have h2: "dp_buttons detail_tel_timeout = Inr [None, None] \<and>
            dp_tel detail_tel_timeout = Raises ''Timeout 5000ms exceeded.''"
    by (simp add: detail_tel_timeout_def detail_sample_def)
  have h3: "get_product_page_info ''https://www.tayara.tn/item/1'' detail_one_button =
     Inr ((product_sample ''https://www.tayara.tn/item/1'')\<lparr>seller_contact := None\<rparr>)"
    by (rule detail_one_button_ok)
  have h4: "dp_buttons detail_sample = Inr [None, None] \<and>
            dp_tel detail_sample = Found ''Tel: 12345678'' \<and> ''Tel: 12345678'' \<noteq> []"
    by (simp add: detail_sample_def)
  have h5: "get_product_page_info ''https://www.tayara.tn/item/1'' detail_sample =
     Inr (product_sample ''https://www.tayara.tn/item/1'')"
    by (rule detail_sample_ok)
  from r h1 have c1: "contact_try detail_one_button = Inl (IndexError ''list index out of range'')"
    by blast
  with r h3 have c2: "detail_contact detail_one_button =
        (None, Some (''Could not extract contact info: '' @
                     str_exn (IndexError ''list index out of range''))) \<and>
      seller_contact ((product_sample ''https://www.tayara.tn/item/1'')\<lparr>seller_contact := None\<rparr>)
        = None"
    by blast
  from r h2 have c3: "contact_try detail_tel_timeout =
      Inl (PlaywrightError ''Timeout 5000ms exceeded.'')"
    by blast
  from r h4 have c4: "fst (detail_contact detail_sample) = Some (strip (drop 4 ''Tel: 12345678''))"
    by blast
  from r h4 h5 have c5: "seller_contact (product_sample ''https://www.tayara.tn/item/1'') =
      Some (strip (drop 4 ''Tel: 12345678''))"
    by blast
  from c1 c2 c3 c4 c5 h2 h3 h4 h5 show ?thesis
    by (simp add: text_defs)
qed

text \<open>
  C2, evaluated on the code. On a page that has the description paragraph but no \<open>data\<close>
  element, and on a page that has the \<open>data\<close> element but no description paragraph, the
  extraction fails: \<open>description\<close> is read before it was assigned. On the page that has
  both, the description is the text before \<open>Tel:\<close>, trimmed, with its white space
  collapsed.
\<close>

theorem description_unbound_without_price_element:
  "get_product_page_info ''https://www.tayara.tn/item/1'' (detail_sample\<lparr>dp_data := Missing\<rparr>) =
     Inl (ValueError ''Failed to extract product info: cannot access local variable 'description' where it is not associated with a value'') \<and>
   get_product_page_info ''https://www.tayara.tn/item/1''
       (detail_sample\<lparr>dp_description := Missing\<rparr>) =
     Inl (ValueError ''Failed to extract product info: cannot access local variable 'description' where it is not associated with a value'') \<and>
   get_product_page_info ''https://www.tayara.tn/item/1'' detail_sample =
     Inr (product_sample ''https://www.tayara.tn/item/1'') \<and>
   description (product_sample ''https://www.tayara.tn/item/1'') = Some ''Great phone.''"
  by (simp add: detail_sample_ok) (simp add: detail_sample_def product_sample_def detail_defs text_defs lower_Oui)

text \<open>
  C3, evaluated on the code. On a detail page whose location text has no comma the split
  raises and the extraction fails, where the Listing Extractor gives the whole text as
  the location and no date; with a comma the detail page gives both parts.
\<close>

theorem location_without_comma_raises:
  "detail_location_date (detail_sample\<lparr>dp_location := Found ''Tunis''\<rparr>) =
     Inl (IndexError ''list index out of range'') \<and>
   get_product_page_info ''https://www.tayara.tn/item/1''
       (detail_sample\<lparr>dp_location := Found ''Tunis''\<rparr>) =
     Inl (ValueError ''Failed to extract product info: list index out of range'') \<and>
   listing_location_date (Some ''Tunis'') = (Some ''Tunis'', None) \<and>
   detail_location_date detail_sample = Inr (Some ''Tunis'', Some ''2 days ago'')"
  by (simp add: detail_sample_def detail_defs listing_location_date_def text_defs lower_Oui)

end
